theory Spec2Isabelle
  imports Complex_Main "HOL-Library.Sublist"
begin

section \<open>Values exchanged with the movie database\<close>

text \<open>
  The tools of \<^verbatim>\<open>tools.py\<close> work on what \<^verbatim>\<open>response.json()\<close> returns: Python
  values built from \<^verbatim>\<open>None\<close>, booleans, numbers, strings, lists and dictionaries.
  A dictionary is an association list whose first binding of a key is the one looked up.
  A string is a list of characters, one character standing for one Python code point, so
  that lengths and slices count what Python counts. A float carries its exact value; the
  non-standard literals NaN and Infinity are left out.
\<close>

datatype json =
    JNull
  | JBool bool
  | JInt int
  | JFloat rat
  | JStr string
  | JList "json list"
  | JObj "(string \<times> json) list"

text \<open>
  Every raise of the source, and of the library calls it makes, is a value of this type:
  the kind of the exception.
\<close>

datatype error =
    TypeError
  | KeyError
  | AttributeError
  | IndexError
  | ValueError
  | ConnectionError
  | JSONDecodeError
  | ValidationError
  | GraphRecursionError
  | ModelError string

text \<open>Sequencing of steps that may raise: the first error ends the computation.\<close>

definition ebind :: "error + 'a \<Rightarrow> ('a \<Rightarrow> error + 'b) \<Rightarrow> error + 'b" where
  "ebind m f = (case m of Inl e \<Rightarrow> Inl e | Inr v \<Rightarrow> f v)"

fun emap :: "('a \<Rightarrow> error + 'b) \<Rightarrow> 'a list \<Rightarrow> error + 'b list" where
  "emap f [] = Inr []"
| "emap f (x # xs) =
     (case f x of
        Inl e \<Rightarrow> Inl e
      | Inr y \<Rightarrow> (case emap f xs of Inl e \<Rightarrow> Inl e | Inr ys \<Rightarrow> Inr (y # ys)))"


section \<open>Messages and the conversation graph of agent.py\<close>

datatype tool_call = ToolCall (tc_name: string) (tc_args: "(string \<times> json) list") (tc_id: string)

datatype tool_status = StatusSuccess | StatusError

datatype message =
    SystemMessage string
  | HumanMessage string
  | AIMessage string "tool_call list"
  | ToolMessage string string string tool_status


fun is_ToolMessage :: "message \<Rightarrow> bool" where
  "is_ToolMessage (ToolMessage c n i st) = True"
| "is_ToolMessage m = False"

fun is_SystemMessage :: "message \<Rightarrow> bool" where
  "is_SystemMessage (SystemMessage c) = True"
| "is_SystemMessage m = False"

fun tool_call_id :: "message \<Rightarrow> string" where
  "tool_call_id (ToolMessage c n i st) = i"
| "tool_call_id m = []"


section \<open>Python operations on these values\<close>

text \<open>
  Each operation the tools apply to a response, with the error Python raises where the
  value has the wrong shape. \<^verbatim>\<open>d[:n]\<close> on a dictionary raises TypeError up to Python
  3.11 and KeyError from 3.12 on; the model says TypeError.
\<close>

definition dict_get :: "(string \<times> json) list \<Rightarrow> string \<Rightarrow> json \<Rightarrow> json" where
  "dict_get kv k d = (case map_of kv k of None \<Rightarrow> d | Some v \<Rightarrow> v)"

fun py_get :: "json \<Rightarrow> string \<Rightarrow> json \<Rightarrow> error + json" where
  "py_get (JObj kv) k d = Inr (dict_get kv k d)"
| "py_get x k d = Inl AttributeError"

fun py_in :: "string \<Rightarrow> json \<Rightarrow> error + bool" where
  "py_in k (JObj kv) = Inr (k \<in> set (map fst kv))"
| "py_in k (JList xs) = Inr (JStr k \<in> set xs)"
| "py_in k (JStr s) = Inr (sublist k s)"
| "py_in k x = Inl TypeError"

fun py_getitem :: "json \<Rightarrow> string \<Rightarrow> error + json" where
  "py_getitem (JObj kv) k = (case map_of kv k of None \<Rightarrow> Inl KeyError | Some v \<Rightarrow> Inr v)"
| "py_getitem x k = Inl TypeError"

fun py_slice :: "nat \<Rightarrow> json \<Rightarrow> error + json" where
  "py_slice n (JList xs) = Inr (JList (take n xs))"
| "py_slice n (JStr s) = Inr (JStr (take n s))"
| "py_slice n x = Inl TypeError"

fun py_iter :: "json \<Rightarrow> error + json list" where
  "py_iter (JList xs) = Inr xs"
| "py_iter (JStr s) = Inr (map (\<lambda>c. JStr [c]) s)"
| "py_iter (JObj kv) = Inr (map (\<lambda>p. JStr (fst p)) kv)"
| "py_iter x = Inl TypeError"

fun py_len :: "json \<Rightarrow> error + nat" where
  "py_len (JStr s) = Inr (length s)"
| "py_len (JList xs) = Inr (length xs)"
| "py_len (JObj kv) = Inr (length kv)"
| "py_len x = Inl TypeError"

fun py_add_str :: "json \<Rightarrow> string \<Rightarrow> error + json" where
  "py_add_str (JStr s) t = Inr (JStr (s @ t))"
| "py_add_str x t = Inl TypeError"

text \<open>\<^verbatim>\<open>min(x, n)\<close> returns \<^verbatim>\<open>x\<close> unless \<^verbatim>\<open>n < x\<close>; a boolean compares as 0 or 1.\<close>

fun py_min :: "json \<Rightarrow> int \<Rightarrow> error + json" where
  "py_min (JInt i) n = Inr (if n < i then JInt n else JInt i)"
| "py_min (JFloat q) n = Inr (if of_int n < q then JInt n else JFloat q)"
| "py_min (JBool b) n = Inr (if n < (if b then 1 else 0) then JInt n else JBool b)"
| "py_min x n = Inl TypeError"

text \<open>\<^verbatim>\<open>str(n)\<close> of an integer, for the f-strings that build the URLs.\<close>

definition digit_char :: "nat \<Rightarrow> char" where
  "digit_char d = char_of (48 + d)"

function show_nat :: "nat \<Rightarrow> string" where
  "show_nat n = (if n < 10 then [digit_char n] else show_nat (n div 10) @ [digit_char (n mod 10)])"
  by pat_completeness auto
termination
  by (relation "measure id") auto

definition show_int :: "int \<Rightarrow> string" where
  "show_int i = (if i < 0 then CHR ''-'' # show_nat (nat (- i)) else show_nat (nat i))"


section \<open>The movie database as seen by requests.get\<close>

type_synonym request = "string \<times> (string \<times> json) list"

text \<open>
  A request is the URL and the query parameters. The reply is either no reply at all
  (the connection fails, \<^verbatim>\<open>requests.get\<close> raises) or a status code with a body;
  the body is \<^verbatim>\<open>None\<close> when it is not JSON, so that \<^verbatim>\<open>.json()\<close> raises.
  No tool reads the status code.
\<close>

datatype http_reply = Unreachable | Reply nat "json option"

definition requests_get_json :: "(request \<Rightarrow> http_reply) \<Rightarrow> request \<Rightarrow> error + json" where
  "requests_get_json http_get req =
     (case http_get req of
        Unreachable \<Rightarrow> Inl ConnectionError
      | Reply st None \<Rightarrow> Inl JSONDecodeError
      | Reply st (Some j) \<Rightarrow> Inr j)"

definition key_param :: "string option \<Rightarrow> json" where
  "key_param k = (case k of None \<Rightarrow> JNull | Some s \<Rightarrow> JStr s)"

section \<open>The tools of tools.py\<close>

text \<open>
  Every tool builds a URL and query parameters, reads
  \<^verbatim>\<open>requests.get(url, params=params).json()\<close> and filters the response. The request
  of each tool is a definition of its own, so that theorems can name what is sent.
\<close>

subsection \<open>The block shared by the five list tools\<close>

text \<open>
  \<^verbatim>\<open>search_movies\<close>, \<^verbatim>\<open>discover_movies\<close>, \<^verbatim>\<open>get_movie_lists\<close>,
  \<^verbatim>\<open>get_trending_movies\<close> and \<^verbatim>\<open>get_movie_recommendations\<close> repeat one block
  after the request; only the overview limit differs (200 in \<^verbatim>\<open>search_movies\<close>, 150 in
  the others). \<open>overview_field\<close> is the conditional expression
  \<^verbatim>\<open>ov[:limit] + '...' if len(ov) > limit else ov\<close> with \<^verbatim>\<open>ov = movie.get('overview', '')\<close>.
\<close>

definition overview_field :: "nat \<Rightarrow> json \<Rightarrow> error + json" where
  "overview_field limit movie =
     ebind (py_get movie ''overview'' (JStr [])) (\<lambda>ov.
     ebind (py_len ov) (\<lambda>n.
       if n > limit
       then ebind (py_slice limit ov) (\<lambda>cut. py_add_str cut ''...'')
       else Inr ov))"

definition filtered_movie :: "nat \<Rightarrow> json \<Rightarrow> error + json" where
  "filtered_movie limit movie =
     ebind (py_get movie ''id'' JNull) (\<lambda>i.
     ebind (py_get movie ''title'' JNull) (\<lambda>t.
     ebind (py_get movie ''release_date'' JNull) (\<lambda>r.
     ebind (py_get movie ''vote_average'' JNull) (\<lambda>v.
     ebind (overview_field limit movie) (\<lambda>ov.
       Inr (JObj [(''id'', i), (''title'', t), (''release_date'', r),
                  (''vote_average'', v), (''overview'', ov)]))))))"

definition filter_response :: "nat \<Rightarrow> json \<Rightarrow> error + json" where
  "filter_response limit response =
     ebind (py_in ''results'' response) (\<lambda>has_results.
       if has_results
       then
         ebind (py_getitem response ''results'') (\<lambda>results.
         ebind (py_slice 5 results) (\<lambda>top.
         ebind (py_iter top) (\<lambda>movies.
         ebind (emap (filtered_movie limit) movies) (\<lambda>filtered_results.
         ebind (py_get response ''total_results'' (JInt 0)) (\<lambda>total.
         ebind (py_min total 5) (\<lambda>m.
           Inr (JObj [(''results'', JList filtered_results), (''total_results'', m)])))))))
       else Inr response)"

subsection \<open>search_movies\<close>

definition search_movies_request :: "string option \<Rightarrow> string \<Rightarrow> int \<Rightarrow> request" where
  "search_movies_request API_KEY query page =
     (''https://api.themoviedb.org/3/search/movie'',
      [(''api_key'', key_param API_KEY), (''query'', JStr query), (''page'', JInt page),
       (''language'', JStr ''en-US'')])"

definition search_movies ::
  "(request \<Rightarrow> http_reply) \<Rightarrow> string option \<Rightarrow> string \<Rightarrow> int \<Rightarrow> error + json" where
  "search_movies http_get API_KEY query page =
     ebind (requests_get_json http_get (search_movies_request API_KEY query page))
       (filter_response 200)"

subsection \<open>discover_movies\<close>

text \<open>\<^verbatim>\<open>if genre_id:\<close> is false for \<^verbatim>\<open>None\<close> and for 0.\<close>

definition discover_movies_request ::
  "string option \<Rightarrow> int option \<Rightarrow> string \<Rightarrow> int \<Rightarrow> request" where
  "discover_movies_request API_KEY genre_id sort_by page =
     (''https://api.themoviedb.org/3/discover/movie'',
      [(''api_key'', key_param API_KEY), (''language'', JStr ''en-US''),
       (''sort_by'', JStr sort_by), (''page'', JInt page), (''include_adult'', JBool False)]
      @ (case genre_id of
           None \<Rightarrow> []
         | Some g \<Rightarrow> if g \<noteq> 0 then [(''with_genres'', JInt g)] else []))"

definition discover_movies ::
  "(request \<Rightarrow> http_reply) \<Rightarrow> string option \<Rightarrow> int option \<Rightarrow> string \<Rightarrow> int \<Rightarrow> error + json" where
  "discover_movies http_get API_KEY genre_id sort_by page =
     ebind (requests_get_json http_get (discover_movies_request API_KEY genre_id sort_by page))
       (filter_response 150)"

subsection \<open>get_movie_lists\<close>

definition get_movie_lists_request :: "string option \<Rightarrow> string \<Rightarrow> int \<Rightarrow> request" where
  "get_movie_lists_request API_KEY list_type page =
     (''https://api.themoviedb.org/3/movie/'' @ list_type,
      [(''api_key'', key_param API_KEY), (''language'', JStr ''en-US''), (''page'', JInt page)])"

definition get_movie_lists ::
  "(request \<Rightarrow> http_reply) \<Rightarrow> string option \<Rightarrow> string \<Rightarrow> int \<Rightarrow> error + json" where
  "get_movie_lists http_get API_KEY list_type page =
     ebind (requests_get_json http_get (get_movie_lists_request API_KEY list_type page))
       (filter_response 150)"

subsection \<open>get_trending_movies\<close>

definition get_trending_movies_request :: "string option \<Rightarrow> string \<Rightarrow> int \<Rightarrow> request" where
  "get_trending_movies_request API_KEY time_window page =
     (''https://api.themoviedb.org/3/trending/movie/'' @ time_window,
      [(''api_key'', key_param API_KEY), (''page'', JInt page)])"

definition get_trending_movies ::
  "(request \<Rightarrow> http_reply) \<Rightarrow> string option \<Rightarrow> string \<Rightarrow> int \<Rightarrow> error + json" where
  "get_trending_movies http_get API_KEY time_window page =
     ebind (requests_get_json http_get (get_trending_movies_request API_KEY time_window page))
       (filter_response 150)"

subsection \<open>get_movie_recommendations\<close>

definition get_movie_recommendations_request :: "string option \<Rightarrow> int \<Rightarrow> int \<Rightarrow> request" where
  "get_movie_recommendations_request API_KEY movie_id page =
     (''https://api.themoviedb.org/3/movie/'' @ show_int movie_id @ ''/recommendations'',
      [(''api_key'', key_param API_KEY), (''language'', JStr ''en-US''), (''page'', JInt page)])"

definition get_movie_recommendations ::
  "(request \<Rightarrow> http_reply) \<Rightarrow> string option \<Rightarrow> int \<Rightarrow> int \<Rightarrow> error + json" where
  "get_movie_recommendations http_get API_KEY movie_id page =
     ebind (requests_get_json http_get (get_movie_recommendations_request API_KEY movie_id page))
       (filter_response 150)"

subsection \<open>get_movie_details\<close>

definition get_movie_details_request :: "string option \<Rightarrow> int \<Rightarrow> bool \<Rightarrow> request" where
  "get_movie_details_request API_KEY movie_id append_credits =
     (''https://api.themoviedb.org/3/movie/'' @ show_int movie_id,
      [(''api_key'', key_param API_KEY), (''language'', JStr ''en-US'')]
      @ (if append_credits then [(''append_to_response'', JStr ''credits'')] else []))"

text \<open>\<^verbatim>\<open>[genre['name'] for genre in response.get('genres', [])]\<close>\<close>

definition genre_names :: "json \<Rightarrow> error + json list" where
  "genre_names response =
     ebind (py_get response ''genres'' (JList [])) (\<lambda>genres.
     ebind (py_iter genres) (\<lambda>gs.
       emap (\<lambda>genre. py_getitem genre ''name'') gs))"

text \<open>The ten first members of the cast, each as its name and character.\<close>

definition cast_entry :: "json \<Rightarrow> error + json" where
  "cast_entry person =
     ebind (py_getitem person ''name'') (\<lambda>n.
     ebind (py_getitem person ''character'') (\<lambda>c.
       Inr (JObj [(''name'', n), (''character'', c)])))"

definition cast_list :: "json \<Rightarrow> error + json list" where
  "cast_list credits =
     ebind (py_get credits ''cast'' (JList [])) (\<lambda>cast.
     ebind (py_slice 10 cast) (\<lambda>top.
     ebind (py_iter top) (\<lambda>people.
       emap cast_entry people)))"

text \<open>
  \<^verbatim>\<open>[person['name'] for person in crew if person['job'] == 'Director']\<close>: the job is
  read first, the name only of a director.
\<close>

fun director_names :: "json list \<Rightarrow> error + json list" where
  "director_names [] = Inr []"
| "director_names (person # crew) =
     ebind (py_getitem person ''job'') (\<lambda>job.
       if job = JStr ''Director''
       then ebind (py_getitem person ''name'') (\<lambda>n.
              ebind (director_names crew) (\<lambda>ds. Inr (n # ds)))
       else director_names crew)"

definition director_of :: "json \<Rightarrow> error + json" where
  "director_of credits =
     ebind (py_get credits ''crew'' (JList [])) (\<lambda>crew.
     ebind (py_iter crew) (\<lambda>people.
     ebind (director_names people) (\<lambda>directors.
       Inr (case directors of [] \<Rightarrow> JNull | d # ds \<Rightarrow> d))))"

definition movie_details_response :: "json \<Rightarrow> error + json" where
  "movie_details_response response =
     ebind (py_get response ''id'' JNull) (\<lambda>i.
     ebind (py_get response ''title'' JNull) (\<lambda>t.
     ebind (py_get response ''overview'' JNull) (\<lambda>ov.
     ebind (py_get response ''release_date'' JNull) (\<lambda>rd.
     ebind (py_get response ''runtime'' JNull) (\<lambda>rt.
     ebind (py_get response ''vote_average'' JNull) (\<lambda>va.
     ebind (py_get response ''vote_count'' JNull) (\<lambda>vc.
     ebind (py_get response ''budget'' JNull) (\<lambda>b.
     ebind (py_get response ''revenue'' JNull) (\<lambda>rv.
     ebind (genre_names response) (\<lambda>gs.
     let filtered_response =
           [(''id'', i), (''title'', t), (''overview'', ov), (''release_date'', rd),
            (''runtime'', rt), (''vote_average'', va), (''vote_count'', vc),
            (''budget'', b), (''revenue'', rv), (''genres'', JList gs)]
     in
     ebind (py_in ''credits'' response) (\<lambda>has_credits.
       if has_credits
       then
         ebind (py_getitem response ''credits'') (\<lambda>credits.
         ebind (cast_list credits) (\<lambda>cast.
         ebind (director_of credits) (\<lambda>director.
           Inr (JObj (filtered_response @ [(''cast'', JList cast), (''director'', director)])))))
       else Inr (JObj filtered_response))))))))))))"

definition get_movie_details ::
  "(request \<Rightarrow> http_reply) \<Rightarrow> string option \<Rightarrow> int \<Rightarrow> bool \<Rightarrow> error + json" where
  "get_movie_details http_get API_KEY movie_id append_credits =
     ebind (requests_get_json http_get (get_movie_details_request API_KEY movie_id append_credits))
       movie_details_response"

subsection \<open>get_watch_providers\<close>

text \<open>The request has the movie in its URL; the region is in scope and not used.\<close>

definition get_watch_providers_request :: "string option \<Rightarrow> int \<Rightarrow> string \<Rightarrow> request" where
  "get_watch_providers_request API_KEY movie_id region =
     (''https://api.themoviedb.org/3/movie/'' @ show_int movie_id @ ''/watch/providers'',
      [(''api_key'', key_param API_KEY), (''language'', JStr ''en-US'')])"

text \<open>
  \<^verbatim>\<open>[provider['provider_name'] for provider in providers_data[kind]]\<close> when
  \<^verbatim>\<open>kind in providers_data\<close>, the empty list the dictionary starts with otherwise.
\<close>

definition provider_names :: "json \<Rightarrow> string \<Rightarrow> error + json list" where
  "provider_names providers_data kind =
     ebind (py_in kind providers_data) (\<lambda>present.
       if present
       then
         ebind (py_getitem providers_data kind) (\<lambda>entries.
         ebind (py_iter entries) (\<lambda>providers.
           emap (\<lambda>provider. py_getitem provider ''provider_name'') providers))
       else Inr [])"

text \<open>\<^verbatim>\<open>'results' in response and region in response['results']\<close>, left to right.\<close>

definition region_listed :: "json \<Rightarrow> string \<Rightarrow> error + bool" where
  "region_listed response region =
     ebind (py_in ''results'' response) (\<lambda>has_results.
       if has_results
       then ebind (py_getitem response ''results'') (\<lambda>results. py_in region results)
       else Inr False)"

definition watch_providers_response :: "int \<Rightarrow> string \<Rightarrow> json \<Rightarrow> error + json" where
  "watch_providers_response movie_id region response =
     ebind (region_listed response region) (\<lambda>listed.
       if listed
       then
         ebind (py_getitem response ''results'') (\<lambda>results.
         ebind (py_getitem results region) (\<lambda>providers_data.
         ebind (py_get providers_data ''link'' (JStr [])) (\<lambda>link.
         ebind (provider_names providers_data ''flatrate'') (\<lambda>streaming.
         ebind (provider_names providers_data ''rent'') (\<lambda>rent.
         ebind (provider_names providers_data ''buy'') (\<lambda>buy.
           Inr (JObj [(''movie_id'', JInt movie_id), (''region'', JStr region),
                      (''streaming'', JList streaming), (''rent'', JList rent),
                      (''buy'', JList buy), (''link'', link)])))))))
       else
         Inr (JObj [(''movie_id'', JInt movie_id), (''region'', JStr region),
                    (''streaming'', JList []), (''rent'', JList []), (''buy'', JList []),
                    (''message'',
                       JStr (''No streaming information available for this movie in '' @ region)),
                    (''link'', JStr [])]))"

definition get_watch_providers ::
  "(request \<Rightarrow> http_reply) \<Rightarrow> string option \<Rightarrow> int \<Rightarrow> string \<Rightarrow> error + json" where
  "get_watch_providers http_get API_KEY movie_id region =
     ebind (requests_get_json http_get (get_watch_providers_request API_KEY movie_id region))
       (watch_providers_response movie_id region)"

subsection \<open>The seven tools as one registry\<close>

text \<open>
  A call of a tool with the arguments of its Python signature, after the defaults of the
  signature have been filled in.
\<close>

datatype tool_args =
    GetWatchProviders int string
  | SearchMovies string int
  | GetMovieDetails int bool
  | DiscoverMovies "int option" string int
  | GetMovieLists string int
  | GetMovieRecommendations int int
  | GetTrendingMovies string int

fun tool_request :: "string option \<Rightarrow> tool_args \<Rightarrow> request" where
  "tool_request k (GetWatchProviders movie_id region) = get_watch_providers_request k movie_id region"
| "tool_request k (SearchMovies query page) = search_movies_request k query page"
| "tool_request k (GetMovieDetails movie_id append_credits) =
     get_movie_details_request k movie_id append_credits"
| "tool_request k (DiscoverMovies genre_id sort_by page) =
     discover_movies_request k genre_id sort_by page"
| "tool_request k (GetMovieLists list_type page) = get_movie_lists_request k list_type page"
| "tool_request k (GetMovieRecommendations movie_id page) =
     get_movie_recommendations_request k movie_id page"
| "tool_request k (GetTrendingMovies time_window page) =
     get_trending_movies_request k time_window page"

fun run_tool :: "(request \<Rightarrow> http_reply) \<Rightarrow> string option \<Rightarrow> tool_args \<Rightarrow> error + json" where
  "run_tool h k (GetWatchProviders movie_id region) = get_watch_providers h k movie_id region"
| "run_tool h k (SearchMovies query page) = search_movies h k query page"
| "run_tool h k (GetMovieDetails movie_id append_credits) =
     get_movie_details h k movie_id append_credits"
| "run_tool h k (DiscoverMovies genre_id sort_by page) = discover_movies h k genre_id sort_by page"
| "run_tool h k (GetMovieLists list_type page) = get_movie_lists h k list_type page"
| "run_tool h k (GetMovieRecommendations movie_id page) =
     get_movie_recommendations h k movie_id page"
| "run_tool h k (GetTrendingMovies time_window page) = get_trending_movies h k time_window page"

section \<open>The agent of agent.py\<close>

subsection \<open>The system prompt\<close>

text \<open>
  The text of \<^verbatim>\<open>system_prompt\<close>, line by line. The arrows of the source are written
  \<^verbatim>\<open>->\<close> here, the apostrophe is the character 39 and the quotation mark the character 34.
\<close>

definition apos :: string where
  "apos = [char_of (39::nat)]"

definition quot :: string where
  "quot = [char_of (34::nat)]"

definition newline :: string where
  "newline = [char_of (10::nat)]"

definition system_prompt_lines :: "string list" where
  "system_prompt_lines =
    [''You are a Movie Assistant AI with access to TMDB movie database tools.'',
     [],
     ''Available Tools:'',
     ''- search_movies: Find movies by title'',
     ''- get_movie_details: Get full movie info (cast, crew, ratings)  '',
     ''- discover_movies: Find movies by genre/popularity'',
     ''- get_movie_lists: Get popular/top-rated/trending lists'',
     ''- get_movie_recommendations: Get similar movies'',
     ''- get_trending_movies: Get current trending films'',
     ''- get_watch_providers: Find where to watch/stream movies'',
     [],
     ''Genres: Action(28), Comedy(35), Drama(18), Horror(27), Romance(10749), Sci-Fi(878), etc.'',
     [],
     ''Guidelines:'',
     ''- Use multiple tools for complete answers if needed'',
     ''- Be conversational and engaging'',
     ''- Provide cast, ratings, and plot when relevant'',
     ''- Offer recommendations when appropriate'',
     ''- Format responses clearly with key details'',
     ''- For '' @ quot @ ''where to watch'' @ quot
        @ '' queries: search_movies -> get_watch_providers'',
     ''- Don'' @ apos @ ''t answer if not related to your task, then explain why you can''
        @ apos @ ''t answer this.'',
     [],
     ''Examples: 1. '' @ quot @ ''popular/ trending movies?'' @ quot
        @ '' -> get_trending_movies. 2. For '' @ quot @ ''Where can I watch Inception?'' @ quot
        @ '' -> search_movies -> get_watch_providers'']"

fun join_lines :: "string list \<Rightarrow> string" where
  "join_lines [] = []"
| "join_lines [l] = l"
| "join_lines (l # ls) = l @ newline @ join_lines ls"

definition system_prompt :: message where
  "system_prompt = SystemMessage (join_lines system_prompt_lines)"

subsection \<open>The nodes\<close>

text \<open>
  The chat model is outside the program. A call takes the state of the model's side
  (whatever the provider remembers or draws at random) and the messages, and gives the
  reply or the failure together with the next state. The reply of \<^verbatim>\<open>llm.invoke\<close> is
  an \<^verbatim>\<open>AIMessage\<close>: its content and its tool calls.
\<close>

type_synonym 's chat_model = "'s \<Rightarrow> message list \<Rightarrow> (error + string \<times> tool_call list) \<times> 's"

text \<open>
  \<^verbatim>\<open>llm_node\<close> returns the update \<^verbatim>\<open>{'messages': [response]}\<close>; an exception of the
  model leaves the node.
\<close>

definition llm_node :: "'s chat_model \<Rightarrow> 's \<Rightarrow> message list \<Rightarrow> (error + message list) \<times> 's" where
  "llm_node llm s messages =
     (case llm s ([system_prompt] @ messages) of
        (Inl e, s') \<Rightarrow> (Inl e, s')
      | (Inr (content, tool_calls), s') \<Rightarrow> (Inr [AIMessage content tool_calls], s'))"

datatype route = Continue | End

text \<open>
  \<^verbatim>\<open>state['messages'][-1]\<close> raises on an empty list, and \<^verbatim>\<open>.tool_calls\<close> is an
  attribute of an \<^verbatim>\<open>AIMessage\<close> only.
\<close>

definition should_continue :: "message list \<Rightarrow> error + route" where
  "should_continue messages =
     (if messages = [] then Inl IndexError
      else case last messages of
             AIMessage content tool_calls \<Rightarrow> Inr (if tool_calls = [] then End else Continue)
           | m \<Rightarrow> Inl AttributeError)"

subsection \<open>The tool node\<close>

text \<open>
  \<^verbatim>\<open>tool_node = ToolNode([...])\<close> is an object of the graph library, built with the
  library's defaults: \<^verbatim>\<open>agent.py\<close> passes no \<^verbatim>\<open>handle_tool_errors\<close>. The node reads
  the tool calls of the last message, which must be an \<^verbatim>\<open>AIMessage\<close>, runs each call and
  answers with one \<^verbatim>\<open>ToolMessage\<close> per call, in the order of the calls, carrying the name
  and the identifier of the call. With the default error handling, a call whose
  arguments do not fit the tool (or that names no tool) is answered with a
  \<^verbatim>\<open>ToolMessage\<close> of status \<^verbatim>\<open>error\<close>; any other exception of a tool, such as a
  failed connection, leaves the node. No tool of \<^verbatim>\<open>tools.py\<close> catches an exception.

  What the library and the process environment supply is a record of parameters: how
  the arguments the model sent are bound to the signature of the tool (\<open>bind_args\<close>),
  how a result is written as the content of the message (\<open>dumps\<close>), the text the node
  writes for an error it handles (\<open>error_text\<close>), what \<^verbatim>\<open>str(e)\<close> gives for an exception
  (\<open>str_exc\<close>), the reply of the movie database to a request, the API key, and the number
  of steps the library allows one run of a graph (\<open>recursion_limit\<close>).
\<close>

record agent_env =
  bind_args :: "tool_call \<Rightarrow> error + tool_args"
  dumps :: "json \<Rightarrow> string"
  error_text :: "error \<Rightarrow> string"
  str_exc :: "error \<Rightarrow> string"
  http_get :: "request \<Rightarrow> http_reply"
  API_KEY :: "string option"
  recursion_limit :: nat

definition run_one :: "agent_env \<Rightarrow> tool_call \<Rightarrow> error + message" where
  "run_one env call =
     (case bind_args env call of
        Inl e \<Rightarrow> Inr (ToolMessage (error_text env e) (tc_name call) (tc_id call) StatusError)
      | Inr args \<Rightarrow>
          (case run_tool (http_get env) (API_KEY env) args of
             Inl e \<Rightarrow> Inl e
           | Inr v \<Rightarrow> Inr (ToolMessage (dumps env v) (tc_name call) (tc_id call) StatusSuccess)))"

definition tool_node :: "agent_env \<Rightarrow> message list \<Rightarrow> error + message list" where
  "tool_node env messages =
     (if messages = [] then Inl ValueError
      else case last messages of
             AIMessage content tool_calls \<Rightarrow> emap (run_one env) tool_calls
           | m \<Rightarrow> Inl ValueError)"

subsection \<open>The graph\<close>

text \<open>
  \<^verbatim>\<open>ChatState\<close> has one key, \<^verbatim>\<open>messages\<close>, with the reducer \<^verbatim>\<open>add_messages\<close>: the
  update a node returns is appended to the list. The reducer also replaces a message
  whose identifier is already in the list; the identifiers of the messages made during a
  run are fresh, so only the appending is modelled.

  The graph of \<^verbatim>\<open>agent.py\<close> has the nodes \<^verbatim>\<open>llm\<close> and \<^verbatim>\<open>tools\<close>, the edges
  \<^verbatim>\<open>START -> llm\<close> and \<^verbatim>\<open>tools -> llm\<close>, and the conditional edges of
  \<^verbatim>\<open>should_continue\<close> from \<^verbatim>\<open>llm\<close> to \<^verbatim>\<open>tools\<close> or to \<^verbatim>\<open>END\<close>. The source
  holds no counter of the rounds. \<^verbatim>\<open>graph.invoke\<close> is called without a configuration,
  so the library runs the graph under its default limit of steps, one step for each
  execution of a node, and raises \<^verbatim>\<open>GraphRecursionError\<close> when a node is due and no step
  is left. \<open>graph_run n node\<close> is the run that has \<open>n\<close> steps left and is about to
  execute \<open>node\<close>; an exception of a node ends the run.
\<close>

definition add_messages :: "message list \<Rightarrow> message list \<Rightarrow> message list" where
  "add_messages left right = left @ right"

datatype node = Llm | Tools

fun graph_run ::
  "nat \<Rightarrow> node \<Rightarrow> 's chat_model \<Rightarrow> agent_env \<Rightarrow> 's \<Rightarrow> message list
     \<Rightarrow> (error + message list) \<times> 's" where
  "graph_run 0 nd llm env s messages = (Inl GraphRecursionError, s)"
| "graph_run (Suc n) Llm llm env s messages =
     (case llm_node llm s messages of
        (Inl e, s') \<Rightarrow> (Inl e, s')
      | (Inr response, s') \<Rightarrow>
          (let messages' = add_messages messages response in
           case should_continue messages' of
             Inl e \<Rightarrow> (Inl e, s')
           | Inr End \<Rightarrow> (Inr messages', s')
           | Inr Continue \<Rightarrow> graph_run n Tools llm env s' messages'))"
| "graph_run (Suc n) Tools llm env s messages =
     (case tool_node env messages of
        Inl e \<Rightarrow> (Inl e, s)
      | Inr results \<Rightarrow> graph_run n Llm llm env s (add_messages messages results))"

definition graph_invoke ::
  "'s chat_model \<Rightarrow> agent_env \<Rightarrow> 's \<Rightarrow> message list \<Rightarrow> (error + message list) \<times> 's" where
  "graph_invoke llm env s messages =
     graph_run (recursion_limit env) Llm llm env s (add_messages [] messages)"


section \<open>The chat endpoint of main.py\<close>

text \<open>
  \<^verbatim>\<open>chat_sessions\<close> maps a session identifier to a dictionary with the keys
  \<^verbatim>\<open>messages\<close> (the log the endpoint \<^verbatim>\<open>/sessions/{id}/messages\<close> returns),
  \<^verbatim>\<open>created_at\<close>, \<^verbatim>\<open>last_activity\<close> and \<^verbatim>\<open>state\<close> (the state given to the agent
  at the next turn, a dictionary with the one key \<^verbatim>\<open>messages\<close>).

  \<^verbatim>\<open>session['state'].copy()\<close> is a shallow copy: the copy holds the same list object
  under \<^verbatim>\<open>messages\<close> as the session does, and \<^verbatim>\<open>agent_state['messages'].append\<close>
  changes that one object. So the lists of the agent states live in a store, and a
  session holds the address of its list. \<^verbatim>\<open>graph.invoke\<close> returns a dictionary with a
  list of its own, which gets a new address.

  Every \<^verbatim>\<open>datetime.now()\<close> of one request reads the same instant \<open>now\<close>; the two
  identifiers drawn by \<^verbatim>\<open>uuid.uuid4()\<close> are inputs. The request body has passed the
  validation of \<^verbatim>\<open>ChatRequest\<close>; the rate limiter is left out.
\<close>

record ChatMessage =
  role :: string
  content :: string
  timestamp :: nat

record session =
  messages :: "ChatMessage list"
  created_at :: nat
  last_activity :: nat
  state :: nat


record ChatRequest =
  message :: string
  session_id :: "string option"











section \<open>Observing the calls of the chat model\<close>

text \<open>
  A chat model that also keeps, on its own side, the list of the message sequences it
  was called with. The agent cannot tell it from the model it wraps.
\<close>

definition recording :: "'s chat_model \<Rightarrow> ('s \<times> message list list) chat_model" where
  "recording llm st msgs =
     (case llm (fst st) msgs of (r, s') \<Rightarrow> (r, (s', snd st @ [msgs])))"


section \<open>Concrete chat models, environments and requests\<close>

definition answering_model :: "unit chat_model" where
  "answering_model s msgs = (Inr (''Inception is a film by Christopher Nolan.'', []), s)"

definition search_call :: tool_call where
  "search_call = ToolCall ''search_movies'' [(''query'', JStr ''Inception'')] ''call_1''"

definition details_call :: tool_call where
  "details_call = ToolCall ''get_movie_details'' [(''movie_id'', JInt 27205)] ''call_2''"

definition requesting_model :: "unit chat_model" where
  "requesting_model s msgs = (Inr ([], [search_call]), s)"



text \<open>
  A binding of arguments for two of the tools, with the defaults of their signatures,
  a rendering of results that keeps only their kind, and the names of the exceptions
  for their texts.
\<close>

definition demo_bind :: "tool_call \<Rightarrow> error + tool_args" where
  "demo_bind call =
     (if tc_name call = ''search_movies''
      then (case map_of (tc_args call) ''query'' of
              Some (JStr q) \<Rightarrow> Inr (SearchMovies q 1)
            | _ \<Rightarrow> Inl ValidationError)
      else if tc_name call = ''get_movie_details''
      then (case map_of (tc_args call) ''movie_id'' of
              Some (JInt i) \<Rightarrow> Inr (GetMovieDetails i True)
            | _ \<Rightarrow> Inl ValidationError)
      else Inl ValidationError)"

fun demo_dumps :: "json \<Rightarrow> string" where
  "demo_dumps (JObj kv) = ''{...}''"
| "demo_dumps (JList xs) = ''[...]''"
| "demo_dumps x = ''...''"

fun demo_str :: "error \<Rightarrow> string" where
  "demo_str TypeError = ''TypeError''"
| "demo_str KeyError = ''KeyError''"
| "demo_str AttributeError = ''AttributeError''"
| "demo_str IndexError = ''IndexError''"
| "demo_str ValueError = ''ValueError''"
| "demo_str ConnectionError = ''ConnectionError''"
| "demo_str JSONDecodeError = ''JSONDecodeError''"
| "demo_str ValidationError = ''ValidationError''"
| "demo_str GraphRecursionError = ''GraphRecursionError''"
| "demo_str (ModelError s) = s"

definition demo_env :: "(request \<Rightarrow> http_reply) \<Rightarrow> agent_env" where
  "demo_env source =
     \<lparr>bind_args = demo_bind, dumps = demo_dumps, error_text = demo_str, str_exc = demo_str,
      http_get = source, API_KEY = Some ''key'', recursion_limit = 25\<rparr>"

text \<open>
  A movie database that cannot be reached, one that answers 404 to everything, and a
  gateway in front of it that answers 502 with a page of HTML.
\<close>

definition unreachable_env :: agent_env where
  "unreachable_env = demo_env (\<lambda>req. Unreachable)"

definition not_found_body :: json where
  "not_found_body =
     JObj [(''success'', JBool False), (''status_code'', JInt 34),
           (''status_message'', JStr ''The resource you requested could not be found.'')]"

definition not_found_env :: agent_env where
  "not_found_env = demo_env (\<lambda>req. Reply 404 (Some not_found_body))"

definition bad_gateway_env :: agent_env where
  "bad_gateway_env = demo_env (\<lambda>req. Reply 502 None)"

text \<open>A call whose arguments do not fit the tool: the query is a number.\<close>

definition bad_call :: tool_call where
  "bad_call = ToolCall ''search_movies'' [(''query'', JInt 7)] ''call_3''"




section \<open>Predicates used to state the properties\<close>

definition no_system :: "message list \<Rightarrow> bool" where
  "no_system ms = list_all (\<lambda>m. \<not> is_SystemMessage m) ms"

text \<open>
  \<open>prompted msgs m\<close>: the sequence \<open>m\<close> given to the chat model is the system prompt,
  then the history \<open>msgs\<close> the turn began with, then messages none of which is a system
  message.
\<close>

definition prompted :: "message list \<Rightarrow> message list \<Rightarrow> bool" where
  "prompted msgs m =
     (m \<noteq> [] \<and> hd m = system_prompt \<and> take (length msgs) (tl m) = msgs
      \<and> no_system (drop (length msgs) (tl m)))"

text \<open>
  \<open>answers tcs res\<close>: the messages \<open>res\<close> are one tool message for each of the calls
  \<open>tcs\<close>, in the order of the calls, each with the identifier of its call, and so with
  distinct identifiers when the calls have distinct ones. \<open>next_call m m'\<close>: the
  sequence \<open>m'\<close> given to the chat model is the sequence \<open>m\<close> of the call before,
  then an assistant message with at least one tool call, then the answers to its calls
  and nothing else.
\<close>

definition answers :: "tool_call list \<Rightarrow> message list \<Rightarrow> bool" where
  "answers tcs res =
     (length res = length tcs \<and> list_all is_ToolMessage res
      \<and> map tool_call_id res = map tc_id tcs
      \<and> (distinct (map tc_id tcs) \<longrightarrow> distinct (map tool_call_id res)))"


text \<open>
  The five list tools and the overview limit each of them applies, as the claim about
  them names them.
\<close>

fun is_list_tool :: "tool_args \<Rightarrow> bool" where
  "is_list_tool (SearchMovies query page) = True"
| "is_list_tool (DiscoverMovies genre_id sort_by page) = True"
| "is_list_tool (GetMovieLists list_type page) = True"
| "is_list_tool (GetTrendingMovies time_window page) = True"
| "is_list_tool (GetMovieRecommendations movie_id page) = True"
| "is_list_tool a = False"

fun overview_limit :: "tool_args \<Rightarrow> nat" where
  "overview_limit (SearchMovies query page) = 200"
| "overview_limit a = 150"

text \<open>
  A response of the shape the movie database documents for its lists: \<^verbatim>\<open>results\<close> is a
  list of dictionaries whose \<^verbatim>\<open>overview\<close>, when present, is a string, and
  \<^verbatim>\<open>total_results\<close>, when present, is an integer.
\<close>

definition well_formed_movie :: "json \<Rightarrow> bool" where
  "well_formed_movie m =
     (case m of
        JObj mkv \<Rightarrow>
          (case map_of mkv ''overview'' of
             None \<Rightarrow> True
           | Some (JStr s) \<Rightarrow> True
           | Some x \<Rightarrow> False)
      | x \<Rightarrow> False)"

definition well_formed_results :: "json \<Rightarrow> bool" where
  "well_formed_results results =
     (case results of JList ms \<Rightarrow> list_all well_formed_movie ms | x \<Rightarrow> False)"

definition well_formed_total :: "(string \<times> json) list \<Rightarrow> bool" where
  "well_formed_total kv =
     (case map_of kv ''total_results'' of
        None \<Rightarrow> True
      | Some (JInt n) \<Rightarrow> True
      | Some x \<Rightarrow> False)"

text \<open>A page of six search results, the first with an overview of 201 characters.\<close>

definition sample_movie :: "int \<Rightarrow> string \<Rightarrow> json" where
  "sample_movie n ov =
     JObj [(''id'', JInt n), (''title'', JStr ''Inception''),
           (''release_date'', JStr ''2010-07-15''), (''vote_average'', JFloat (42 / 5)),
           (''overview'', JStr ov), (''popularity'', JInt 9)]"

definition filtered_sample_movie :: "int \<Rightarrow> string \<Rightarrow> json" where
  "filtered_sample_movie n ov =
     JObj [(''id'', JInt n), (''title'', JStr ''Inception''),
           (''release_date'', JStr ''2010-07-15''), (''vote_average'', JFloat (42 / 5)),
           (''overview'', JStr ov)]"

definition search_results :: json where
  "search_results =
     JList [sample_movie 1 (replicate 201 CHR ''a''),
            sample_movie 2 ''A thief who steals secrets.'',
            sample_movie 3 [], sample_movie 4 ''d'', sample_movie 5 ''e'',
            sample_movie 6 ''f'']"

definition search_body_kv :: "(string \<times> json) list" where
  "search_body_kv =
     [(''page'', JInt 1), (''results'', search_results), (''total_pages'', JInt 1),
      (''total_results'', JInt 6)]"

definition filtered_search_body :: json where
  "filtered_search_body =
     JObj [(''results'',
              JList [filtered_sample_movie 1 (replicate 200 CHR ''a'' @ ''...''),
                     filtered_sample_movie 2 ''A thief who steals secrets.'',
                     filtered_sample_movie 3 [], filtered_sample_movie 4 ''d'',
                     filtered_sample_movie 5 ''e'']),
           (''total_results'', JInt 5)]"

text \<open>
  The watch providers of one movie: the United States are listed, with a streaming and
  a rental offer; no other region is.
\<close>

definition us_provider_data :: json where
  "us_provider_data =
     JObj [(''link'', JStr ''https://www.themoviedb.org/movie/27205/watch?locale=US''),
           (''flatrate'', JList [JObj [(''provider_id'', JInt 8),
                                       (''provider_name'', JStr ''Netflix'')]]),
           (''rent'', JList [JObj [(''provider_id'', JInt 2),
                                   (''provider_name'', JStr ''Apple TV'')]])]"

definition us_listing :: "(string \<times> json) list" where
  "us_listing = [(''US'', us_provider_data)]"

definition providers_kv :: "(string \<times> json) list" where
  "providers_kv = [(''id'', JInt 27205), (''results'', JObj us_listing)]"

text \<open>
  Two data sources that give the same reply to the search for Inception: one answers
  every request with the page of results, the other cannot be reached for any other
  request.
\<close>

definition search_source :: "request \<Rightarrow> http_reply" where
  "search_source req = Reply 200 (Some (JObj search_body_kv))"

definition search_only_source :: "request \<Rightarrow> http_reply" where
  "search_only_source req =
     (if req = tool_request (Some ''key'') (SearchMovies ''Inception'' 1)
      then Reply 200 (Some (JObj search_body_kv)) else Unreachable)"

text \<open>
  Provider data of the documented shape: each of \<^verbatim>\<open>flatrate\<close>, \<^verbatim>\<open>rent\<close> and
  \<^verbatim>\<open>buy\<close>, when present, is a list of dictionaries with a \<^verbatim>\<open>provider_name\<close>.
\<close>

definition well_formed_provider :: "json \<Rightarrow> bool" where
  "well_formed_provider p =
     (case p of JObj pk \<Rightarrow> ''provider_name'' \<in> set (map fst pk) | x \<Rightarrow> False)"

definition well_formed_offers :: "(string \<times> json) list \<Rightarrow> string \<Rightarrow> bool" where
  "well_formed_offers dkv kind =
     (case map_of dkv kind of
        None \<Rightarrow> True
      | Some (JList ps) \<Rightarrow> list_all well_formed_provider ps
      | Some x \<Rightarrow> False)"

definition well_formed_provider_data :: "json \<Rightarrow> bool" where
  "well_formed_provider_data providers_data =
     (case providers_data of
        JObj dkv \<Rightarrow> well_formed_offers dkv ''flatrate'' \<and> well_formed_offers dkv ''rent''
                     \<and> well_formed_offers dkv ''buy''
      | x \<Rightarrow> False)"

definition providers_source :: "request \<Rightarrow> http_reply" where
  "providers_source req = Reply 200 (Some (JObj providers_kv))"

text \<open>
  A page with one search result whose overview is \<^verbatim>\<open>null\<close>, and a data source that
  answers every request with it.
\<close>

definition null_overview_kv :: "(string \<times> json) list" where
  "null_overview_kv =
     [(''page'', JInt 1),
      (''results'', JList [JObj [(''id'', JInt 1), (''title'', JStr ''Inception''),
                                 (''overview'', JNull)]]),
      (''total_results'', JInt 1)]"

definition null_overview_source :: "request \<Rightarrow> http_reply" where
  "null_overview_source req = Reply 200 (Some (JObj null_overview_kv))"






text \<open>
  A model that sends a call whose arguments do not fit, and two data sources that answer
  with the same body under the status 404 and under the status 200.
\<close>

definition bad_request_model :: "unit chat_model" where
  "bad_request_model s msgs = (Inr ([], [bad_call]), s)"

definition not_found_source :: "request \<Rightarrow> http_reply" where
  "not_found_source req = Reply 404 (Some not_found_body)"

definition found_source :: "request \<Rightarrow> http_reply" where
  "found_source req = Reply 200 (Some not_found_body)"

section \<open>Facts about the tools\<close>

lemma run_tool_unreachable:
  assumes "h (tool_request k a) = Unreachable"
  shows "run_tool h k a = Inl ConnectionError"
  using assms
  by (cases a)
     (simp_all add: get_watch_providers_def search_movies_def get_movie_details_def
        discover_movies_def get_movie_lists_def get_movie_recommendations_def
        get_trending_movies_def requests_get_json_def ebind_def)

lemma run_tool_not_json:
  assumes "h (tool_request k a) = Reply st None"
  shows "run_tool h k a = Inl JSONDecodeError"
  using assms
  by (cases a)
     (simp_all add: get_watch_providers_def search_movies_def get_movie_details_def
        discover_movies_def get_movie_lists_def get_movie_recommendations_def
        get_trending_movies_def requests_get_json_def ebind_def)

lemma prompted_iff:
  "prompted msgs m \<longleftrightarrow> (\<exists>added. m = system_prompt # msgs @ added \<and> no_system added)"
proof
  assume p: "prompted msgs m"
  then obtain t where m: "m = system_prompt # t"
    by (cases m) (simp_all add: prompted_def)
  from p m have t: "take (length msgs) t = msgs" and d: "no_system (drop (length msgs) t)"
    by (simp_all add: prompted_def)
  have "t = take (length msgs) t @ drop (length msgs) t" by simp
  with t have "t = msgs @ drop (length msgs) t" by simp
  with m d show "\<exists>added. m = system_prompt # msgs @ added \<and> no_system added" by blast
next
  assume "\<exists>added. m = system_prompt # msgs @ added \<and> no_system added"
  then show "prompted msgs m" by (auto simp: prompted_def)
qed

lemma prompted_extend:
  assumes "prompted (msgs @ extra) m" and "no_system extra"
  shows "prompted msgs m"
proof -
  from assms(1) obtain added where "m = system_prompt # (msgs @ extra) @ added" "no_system added"
    unfolding prompted_iff by blast
  with assms(2) have "m = system_prompt # msgs @ (extra @ added) \<and> no_system (extra @ added)"
    by (simp add: no_system_def)
  then show ?thesis unfolding prompted_iff by blast
qed

lemma tool_messages_no_system:
  "list_all is_ToolMessage res \<Longrightarrow> no_system res"
  unfolding no_system_def
  by (induction res) (auto elim: is_ToolMessage.elims)

lemma ebind_Inr:
  "ebind m f = Inr v \<longleftrightarrow> (\<exists>x. m = Inr x \<and> f x = Inr v)"
  by (cases m) (simp_all add: ebind_def)

lemma emap_Inr:
  assumes "emap f xs = Inr ys"
  shows "length ys = length xs \<and> (\<forall>i<length xs. f (xs ! i) = Inr (ys ! i))"
  using assms
proof (induction xs arbitrary: ys)
  case Nil
  then show ?case by simp
next
  case (Cons x xs)
  from Cons.prems obtain y ys' where y: "f x = Inr y" and ys': "emap f xs = Inr ys'"
    and ys: "ys = y # ys'"
    by (auto split: sum.splits)
  from Cons.IH[OF ys'] have ih: "length ys' = length xs" "\<forall>i<length xs. f (xs ! i) = Inr (ys' ! i)"
    by simp_all
  show ?case
  proof (intro conjI allI impI)
    show "length ys = length (x # xs)" using ih ys by simp
  next
    fix i assume "i < length (x # xs)"
    then show "f ((x # xs) ! i) = Inr (ys ! i)"
      using y ih ys by (cases i) simp_all
  qed
qed

lemma emap_returns:
  assumes "list_all (\<lambda>x. \<exists>y. f x = Inr y) xs"
  shows "\<exists>ys. emap f xs = Inr ys"
  using assms by (induction xs) auto

lemma slice_then_iter:
  assumes "py_slice n r = Inr sl" and "py_iter sl = Inr ms"
  shows "\<exists>movies. py_iter r = Inr movies \<and> ms = take n movies"
  using assms by (cases r) (auto simp: take_map)

lemma overview_field_string:
  assumes "overview_field limit (JObj mkv) = Inr ov"
    and "dict_get mkv ''overview'' (JStr []) = JStr s"
  shows "ov = JStr (if limit < length s then take limit s @ ''...'' else s)"
  using assms by (auto simp: overview_field_def ebind_def split: if_splits)

lemma filtered_movie_Inr:
  assumes "filtered_movie limit m = Inr out"
  shows "\<exists>mkv ov. m = JObj mkv
           \<and> out = JObj [(''id'', dict_get mkv ''id'' JNull),
                         (''title'', dict_get mkv ''title'' JNull),
                         (''release_date'', dict_get mkv ''release_date'' JNull),
                         (''vote_average'', dict_get mkv ''vote_average'' JNull),
                         (''overview'', ov)]
           \<and> (\<forall>s. dict_get mkv ''overview'' (JStr []) = JStr s \<longrightarrow>
                  ov = JStr (if limit < length s then take limit s @ ''...'' else s))"
proof (cases m)
  case (JObj mkv)
  with assms obtain ov where ov: "overview_field limit (JObj mkv) = Inr ov"
    and out: "out = JObj [(''id'', dict_get mkv ''id'' JNull),
                         (''title'', dict_get mkv ''title'' JNull),
                         (''release_date'', dict_get mkv ''release_date'' JNull),
                         (''vote_average'', dict_get mkv ''vote_average'' JNull),
                         (''overview'', ov)]"
    by (auto simp: filtered_movie_def ebind_Inr)
  from overview_field_string[OF ov] JObj out show ?thesis by blast
qed (use assms in \<open>simp_all add: filtered_movie_def ebind_def\<close>)

lemma filtered_movie_returns:
  assumes "well_formed_movie m"
  shows "\<exists>out. filtered_movie limit m = Inr out"
proof -
  from assms obtain mkv where m: "m = JObj mkv"
    by (cases m) (simp_all add: well_formed_movie_def)
  from assms m have "(\<exists>s. dict_get mkv ''overview'' (JStr []) = JStr s)"
    by (auto simp: well_formed_movie_def dict_get_def split: option.splits json.splits)
  then obtain s where "dict_get mkv ''overview'' (JStr []) = JStr s" by blast
  then have "\<exists>ov. overview_field limit (JObj mkv) = Inr ov"
    by (simp add: overview_field_def ebind_def)
  then show ?thesis
    using m by (auto simp: filtered_movie_def ebind_def)
qed

lemma py_min_returns:
  assumes "well_formed_total kv"
  shows "\<exists>t. py_min (dict_get kv ''total_results'' (JInt 0)) 5 = Inr t"
  using assms
  by (auto simp: well_formed_total_def dict_get_def split: option.splits json.splits)

lemma results_key_present:
  assumes "map_of kv ''results'' = Some results"
  shows "''results'' \<in> set (map fst kv)"
  using assms by (metis map_of_eq_None_iff option.distinct(1) set_map)

lemma filter_response_Inr:
  assumes "map_of kv ''results'' = Some results"
    and "filter_response limit (JObj kv) = Inr v"
  shows "\<exists>movies out total.
           py_iter results = Inr movies
         \<and> v = JObj [(''results'', JList out), (''total_results'', total)]
         \<and> length out = min 5 (length movies)
         \<and> py_min (dict_get kv ''total_results'' (JInt 0)) 5 = Inr total
         \<and> (\<forall>i<length out. filtered_movie limit (movies ! i) = Inr (out ! i))"
proof -
  note mem = results_key_present[OF assms(1)]
  from assms mem obtain sl ms out total where
    sl: "py_slice 5 results = Inr sl" and ms: "py_iter sl = Inr ms"
    and out: "emap (filtered_movie limit) ms = Inr out"
    and total: "py_min (dict_get kv ''total_results'' (JInt 0)) 5 = Inr total"
    and v: "v = JObj [(''results'', JList out), (''total_results'', total)]"
    by (auto simp: filter_response_def ebind_Inr)
  from slice_then_iter[OF sl ms] obtain movies where
    movies: "py_iter results = Inr movies" "ms = take 5 movies" by blast
  from emap_Inr[OF out] movies(2)
  have len: "length out = min 5 (length movies)"
    and each: "\<forall>i<length out. filtered_movie limit (movies ! i) = Inr (out ! i)"
    by (simp_all add: min.commute)
  from movies(1) v len total each show ?thesis by blast
qed

lemma filter_response_returns:
  assumes "map_of kv ''results'' = Some results"
    and "well_formed_results results" and "well_formed_total kv"
  shows "\<exists>v. filter_response limit (JObj kv) = Inr v"
proof -
  note mem = results_key_present[OF assms(1)]
  from assms(2) obtain ms where ms: "results = JList ms" "list_all well_formed_movie ms"
    by (cases results) (simp_all add: well_formed_results_def)
  have "list_all well_formed_movie (take 5 ms)"
    using ms(2) unfolding list_all_iff by (meson in_set_takeD)
  then have "list_all (\<lambda>x. \<exists>y. filtered_movie limit x = Inr y) (take 5 ms)"
    unfolding list_all_iff using filtered_movie_returns by blast
  from emap_returns[OF this] obtain out where
    out: "emap (filtered_movie limit) (take 5 ms) = Inr out" by blast
  from py_min_returns[OF assms(3)] obtain t where
    t: "py_min (dict_get kv ''total_results'' (JInt 0)) 5 = Inr t" by blast
  show ?thesis
    using mem assms(1) ms(1) out t
    by (simp add: filter_response_def ebind_def)
qed

lemma run_list_tool:
  assumes "is_list_tool a"
  shows "run_tool h k a
           = ebind (requests_get_json h (tool_request k a)) (filter_response (overview_limit a))"
  using assms
  by (cases a)
     (simp_all add: search_movies_def discover_movies_def get_movie_lists_def
        get_movie_recommendations_def get_trending_movies_def)

lemma run_tool_same_reply:
  assumes "h (tool_request k a) = h' (tool_request k a)"
  shows "run_tool h k a = run_tool h' k a"
  using assms
  by (cases a)
     (simp_all add: get_watch_providers_def search_movies_def get_movie_details_def
        discover_movies_def get_movie_lists_def get_movie_recommendations_def
        get_trending_movies_def requests_get_json_def)

lemma search_body_run:
  "run_tool (\<lambda>req. Reply 200 (Some (JObj search_body_kv))) (Some ''key'')
       (SearchMovies ''Inception'' 1)
     = Inr filtered_search_body"
  by (simp add: search_movies_def requests_get_json_def ebind_def search_body_kv_def
      search_results_def filtered_search_body_def
      filter_response_def sample_movie_def filtered_sample_movie_def
      filtered_movie_def overview_field_def dict_get_def)


lemma key_present_iff: "k \<in> fst ` set kv \<longleftrightarrow> map_of kv k \<noteq> None"
  by (simp add: map_of_eq_None_iff)

lemma watch_providers_response_keys:
  assumes "watch_providers_response movie_id region response = Inr v"
  shows "\<exists>kv. v = JObj kv
            \<and> {''movie_id'', ''region'', ''streaming'', ''rent'', ''buy'', ''link''}
                 \<subseteq> set (map fst kv)
            \<and> map_of kv ''movie_id'' = Some (JInt movie_id)
            \<and> map_of kv ''region'' = Some (JStr region)"
  using assms
  by (auto simp: watch_providers_response_def ebind_Inr split: if_splits)

lemma region_not_listed:
  assumes "map_of rkv ''results'' = None
           \<or> (\<exists>pkv. map_of rkv ''results'' = Some (JObj pkv) \<and> region \<notin> set (map fst pkv))"
  shows "region_listed (JObj rkv) region = Inr False"
  using assms
  by (auto simp: region_listed_def ebind_def key_present_iff)

lemma provider_names_returns:
  assumes "well_formed_offers dkv kind"
  shows "\<exists>ns. provider_names (JObj dkv) kind = Inr ns"
proof (cases "map_of dkv kind")
  case None
  then show ?thesis by (simp add: provider_names_def ebind_def key_present_iff)
next
  case (Some x)
  with assms obtain ps where ps: "x = JList ps" "list_all well_formed_provider ps"
    by (cases x) (simp_all add: well_formed_offers_def)
  have one: "\<exists>y. py_getitem p ''provider_name'' = Inr y" if "well_formed_provider p" for p
    using that
    by (cases p) (auto simp: well_formed_provider_def key_present_iff)
  have "list_all (\<lambda>p. \<exists>y. py_getitem p ''provider_name'' = Inr y) ps"
    using ps(2) one unfolding list_all_iff by blast
  from emap_returns[OF this] obtain ns where
    "emap (\<lambda>provider. py_getitem provider ''provider_name'') ps = Inr ns" by blast
  with Some ps(1) show ?thesis
    by (simp add: provider_names_def ebind_def key_present_iff)
qed

lemma watch_providers_response_returns:
  assumes "map_of rkv ''results'' = Some (JObj pkv)" and "map_of pkv region = Some pd"
    and "well_formed_provider_data pd"
  shows "\<exists>v. watch_providers_response movie_id region (JObj rkv) = Inr v"
proof -
  from assms(3) obtain dkv where pd: "pd = JObj dkv"
    and wf: "well_formed_offers dkv ''flatrate''" "well_formed_offers dkv ''rent''"
      "well_formed_offers dkv ''buy''"
    by (cases pd) (simp_all add: well_formed_provider_data_def)
  have listed: "region_listed (JObj rkv) region = Inr True"
    using assms(1,2) by (simp add: region_listed_def ebind_def key_present_iff)
  from provider_names_returns[OF wf(1)] obtain s where s: "provider_names (JObj dkv) ''flatrate'' = Inr s" by blast
  from provider_names_returns[OF wf(2)] obtain r where r: "provider_names (JObj dkv) ''rent'' = Inr r" by blast
  from provider_names_returns[OF wf(3)] obtain b where b: "provider_names (JObj dkv) ''buy'' = Inr b" by blast
  show ?thesis
    using listed assms(1,2) pd s r b
    by (simp add: watch_providers_response_def ebind_def)
qed

lemma providers_us:
  "get_watch_providers providers_source (Some ''key'') 27205 ''US''
     = Inr (JObj [(''movie_id'', JInt 27205), (''region'', JStr ''US''),
                  (''streaming'', JList [JStr ''Netflix'']), (''rent'', JList [JStr ''Apple TV'']),
                  (''buy'', JList []),
                  (''link'', JStr ''https://www.themoviedb.org/movie/27205/watch?locale=US'')])"
  by (simp add: get_watch_providers_def requests_get_json_def providers_source_def ebind_def
      watch_providers_response_def region_listed_def providers_kv_def provider_names_def
      dict_get_def us_listing_def us_provider_data_def)


section \<open>Facts about the run of the graph\<close>

lemma run_one_Inr:
  assumes "run_one env call = Inr m"
  shows "is_ToolMessage m \<and> tool_call_id m = tc_id call"
  using assms by (auto simp: run_one_def split: sum.splits)

lemma tool_node_Inr:
  assumes "tool_node env (h @ [AIMessage c tcs]) = Inr res"
  shows "length res = length tcs \<and> map tool_call_id res = map tc_id tcs
         \<and> list_all is_ToolMessage res"
proof -
  from assms have e: "emap (run_one env) tcs = Inr res"
    by (simp add: tool_node_def)
  from emap_Inr[OF e] have len: "length res = length tcs"
    and each: "\<forall>i<length tcs. run_one env (tcs ! i) = Inr (res ! i)" by simp_all
  have ids: "map tool_call_id res = map tc_id tcs"
    using len each run_one_Inr by (intro nth_equalityI) auto
  have tm: "list_all is_ToolMessage res"
    unfolding list_all_length using len each run_one_Inr by auto
  from len ids tm show ?thesis by simp
qed

lemma tool_node_not_after_assistant:
  assumes "tool_node env msgs = Inr res"
  shows "\<exists>h c tcs. msgs = h @ [AIMessage c tcs]"
proof -
  from assms have ne: "msgs \<noteq> []" by (auto simp: tool_node_def)
  from assms ne obtain c tcs where "last msgs = AIMessage c tcs"
    by (cases "last msgs") (simp_all add: tool_node_def)
  with ne have "msgs = butlast msgs @ [AIMessage c tcs]"
    by (metis append_butlast_last_id)
  then show ?thesis by blast
qed

lemma llm_step_cases:
  obtains (fail) e s' where "llm_node llm s msgs = (Inl e, s')"
      and "llm s (system_prompt # msgs) = (Inl e, s')"
  | (reply) c tcs s' where "llm_node llm s msgs = (Inr [AIMessage c tcs], s')"
      and "llm s (system_prompt # msgs) = (Inr (c, tcs), s')"
proof (cases "llm s (system_prompt # msgs)")
  case (Pair r s')
  show ?thesis
  proof (cases r)
    case (Inl e)
    with Pair show ?thesis by (intro fail[of e s']) (simp_all add: llm_node_def)
  next
    case (Inr p)
    obtain c tcs where "p = (c, tcs)" by (cases p)
    with Pair Inr show ?thesis by (intro reply[of c tcs s']) (simp_all add: llm_node_def)
  qed
qed

lemma graph_run_Llm_fail:
  assumes "llm s (system_prompt # msgs) = (Inl e, s')"
  shows "graph_run (Suc n) Llm llm env s msgs = (Inl e, s')"
  using assms by (simp add: graph_run.simps llm_node_def)

lemma graph_run_Llm_end:
  assumes "llm s (system_prompt # msgs) = (Inr (c, []), s')"
  shows "graph_run (Suc n) Llm llm env s msgs = (Inr (msgs @ [AIMessage c []]), s')"
  using assms by (simp add: graph_run.simps llm_node_def add_messages_def should_continue_def)

lemma graph_run_Llm_continue:
  assumes "llm s (system_prompt # msgs) = (Inr (c, tcs), s')" and "tcs \<noteq> []"
  shows "graph_run (Suc n) Llm llm env s msgs
           = graph_run n Tools llm env s' (msgs @ [AIMessage c tcs])"
  using assms by (simp add: graph_run.simps llm_node_def add_messages_def should_continue_def)

lemma graph_run_Tools_fail:
  assumes "tool_node env msgs = Inl e"
  shows "graph_run (Suc n) Tools llm env s msgs = (Inl e, s)"
  using assms by (simp add: graph_run.simps)

lemma graph_run_Tools_continue:
  assumes "tool_node env msgs = Inr res"
  shows "graph_run (Suc n) Tools llm env s msgs = graph_run n Llm llm env s (msgs @ res)"
  using assms by (simp add: graph_run.simps add_messages_def)

declare graph_run.simps [simp del]

lemma graph_run_zero: "graph_run 0 nd llm env s msgs = (Inl GraphRecursionError, s)"
  by (simp add: graph_run.simps)

lemma graph_run_final:
  "graph_run n nd llm env s msgs = (Inr h, s')
     \<Longrightarrow> h \<noteq> [] \<and> (\<exists>c. last h = AIMessage c [])"
proof (induction n arbitrary: nd s msgs)
  case 0
  then show ?case by (simp add: graph_run_zero)
next
  case (Suc n)
  show ?case
  proof (cases nd)
    case Llm
    show ?thesis
    proof (cases rule: llm_step_cases[of llm s msgs])
      case (fail e s1)
      with Suc.prems Llm show ?thesis by (simp add: graph_run_Llm_fail)
    next
      case (reply c tcs s1)
      show ?thesis
      proof (cases "tcs = []")
        case True
        with Suc.prems Llm reply show ?thesis by (auto simp: graph_run_Llm_end)
      next
        case False
        with Suc.prems Llm reply
        have "graph_run n Tools llm env s1 (msgs @ [AIMessage c tcs]) = (Inr h, s')"
          by (simp add: graph_run_Llm_continue)
        from Suc.IH[OF this] show ?thesis .
      qed
    qed
  next
    case Tools
    show ?thesis
    proof (cases "tool_node env msgs")
      case (Inl e)
      with Suc.prems Tools show ?thesis by (simp add: graph_run_Tools_fail)
    next
      case (Inr res)
      with Suc.prems Tools have "graph_run n Llm llm env s (msgs @ res) = (Inr h, s')"
        by (simp add: graph_run_Tools_continue)
      from Suc.IH[OF this] show ?thesis .
    qed
  qed
qed

lemma recording_call:
  assumes "recording llm (s, seen) m = (r, st')"
  shows "\<exists>s1. st' = (s1, seen @ [m]) \<and> llm s m = (r, s1)"
  using assms by (cases "llm s m") (auto simp: recording_def)

lemma no_system_append: "no_system (xs @ ys) \<longleftrightarrow> no_system xs \<and> no_system ys"
  by (simp add: no_system_def)

lemma graph_run_recording:
  assumes "graph_run n nd (recording llm) env (s, seen) (base @ extra) = (r, (s', seen'))"
    and "no_system extra"
  shows "\<exists>new. seen' = seen @ new \<and> list_all (prompted base) new
               \<and> (nd = Llm \<and> 0 < n \<longrightarrow> new \<noteq> [])
               \<and> (\<forall>h. r = Inr h \<longrightarrow> (\<exists>added. h = base @ added \<and> no_system added))"
  using assms
proof (induction n arbitrary: nd s seen extra)
  case 0
  then show ?case by (auto simp: graph_run_zero)
next
  case (Suc n)
  let ?msgs = "base @ extra"
  show ?case
  proof (cases nd)
    case Llm
    have first: "prompted base (system_prompt # ?msgs)"
      unfolding prompted_iff using Suc.prems(2) by blast
    show ?thesis
    proof (cases rule: llm_step_cases[of "recording llm" "(s, seen)" ?msgs])
      case (fail e st1)
      from recording_call[OF fail(2)] obtain s1 where
        st1: "st1 = (s1, seen @ [system_prompt # ?msgs])" by blast
      from Suc.prems(1) Llm fail(2) st1
      have "r = Inl e" "seen' = seen @ [system_prompt # ?msgs]"
        by (simp_all add: graph_run_Llm_fail)
      with first show ?thesis by simp
    next
      case (reply c tcs st1)
      from recording_call[OF reply(2)] obtain s1 where
        st1: "st1 = (s1, seen @ [system_prompt # ?msgs])" by blast
      show ?thesis
      proof (cases "tcs = []")
        case True
        from Suc.prems(1) Llm reply(2) st1 True
        have "r = Inr (?msgs @ [AIMessage c []])" "seen' = seen @ [system_prompt # ?msgs]"
          by (simp_all add: graph_run_Llm_end)
        moreover have "no_system (extra @ [AIMessage c []])"
          using Suc.prems(2) by (simp add: no_system_def)
        ultimately show ?thesis using first by auto
      next
        case False
        have ns: "no_system (extra @ [AIMessage c tcs])"
          using Suc.prems(2) by (simp add: no_system_def)
        from Suc.prems(1) Llm reply(2) st1 False
        have "graph_run n Tools (recording llm) env (s1, seen @ [system_prompt # ?msgs])
                (base @ (extra @ [AIMessage c tcs])) = (r, (s', seen'))"
          by (simp add: graph_run_Llm_continue)
        from Suc.IH[OF this ns] obtain new where
          new: "seen' = (seen @ [system_prompt # ?msgs]) @ new" "list_all (prompted base) new"
            "\<forall>h. r = Inr h \<longrightarrow> (\<exists>added. h = base @ added \<and> no_system added)"
          by blast
        from new first show ?thesis
          by (intro exI[of _ "(system_prompt # ?msgs) # new"]) simp
      qed
    qed
  next
    case Tools
    show ?thesis
    proof (cases "tool_node env ?msgs")
      case (Inl e)
      with Suc.prems(1) Tools have "r = Inl e" "seen' = seen"
        by (simp_all add: graph_run_Tools_fail)
      with Tools show ?thesis by simp
    next
      case (Inr res)
      from tool_node_not_after_assistant[OF Inr] obtain h c tcs where
        h: "?msgs = h @ [AIMessage c tcs]" by blast
      with Inr have "list_all is_ToolMessage res"
        using tool_node_Inr[of env h c tcs res] by simp
      then have ns: "no_system (extra @ res)"
        using Suc.prems(2) tool_messages_no_system by (simp add: no_system_append)
      from Suc.prems(1) Tools Inr
      have "graph_run n Llm (recording llm) env (s, seen) (base @ (extra @ res)) = (r, (s', seen'))"
        by (simp add: graph_run_Tools_continue)
      from Suc.IH[OF this ns] Tools show ?thesis by blast
    qed
  qed
qed


lemma graph_run_pos_Llm_end:
  assumes "0 < n" and "llm s (system_prompt # msgs) = (Inr (c, []), s')"
  shows "graph_run n Llm llm env s msgs = (Inr (msgs @ [AIMessage c []]), s')"
  using assms graph_run_Llm_end[of llm s msgs c s' "n - 1" env] by simp

lemma graph_run_pos_Llm_continue:
  assumes "0 < n" and "llm s (system_prompt # msgs) = (Inr (c, tcs), s')" and "tcs \<noteq> []"
  shows "graph_run n Llm llm env s msgs
           = graph_run (n - 1) Tools llm env s' (msgs @ [AIMessage c tcs])"
  using assms graph_run_Llm_continue[of llm s msgs c tcs s' "n - 1" env] by simp

lemma graph_run_pos_Tools_fail:
  assumes "0 < n" and "tool_node env msgs = Inl e"
  shows "graph_run n Tools llm env s msgs = (Inl e, s)"
  using assms graph_run_Tools_fail[of env msgs e "n - 1" llm s] by simp

lemma graph_run_pos_Tools_continue:
  assumes "0 < n" and "tool_node env msgs = Inr res"
  shows "graph_run n Tools llm env s msgs = graph_run (n - 1) Llm llm env s (msgs @ res)"
  using assms graph_run_Tools_continue[of env msgs res "n - 1" llm s] by simp


lemma emap_Inl:
  assumes "i < length xs" and "\<forall>j<i. \<exists>y. f (xs ! j) = Inr y" and "f (xs ! i) = Inl e"
  shows "emap f xs = Inl e"
  using assms
proof (induction xs arbitrary: i)
  case Nil
  then show ?case by simp
next
  case (Cons x xs)
  show ?case
  proof (cases i)
    case 0
    with Cons.prems show ?thesis by simp
  next
    case (Suc k)
    from Cons.prems(2) Suc obtain y where y: "f x = Inr y" by fastforce
    have "emap f xs = Inl e"
    proof (rule Cons.IH[of k])
      show "k < length xs" using Cons.prems(1) Suc by simp
      show "\<forall>j<k. \<exists>y. f (xs ! j) = Inr y"
      proof (intro allI impI)
        fix j assume "j < k"
        then have "Suc j < i" using Suc by simp
        with Cons.prems(2) show "\<exists>y. f (xs ! j) = Inr y" by fastforce
      qed
      show "f (xs ! k) = Inl e" using Cons.prems(3) Suc by simp
    qed
    with y show ?thesis by simp
  qed
qed

lemma run_one_raises:
  assumes "bind_args env call = Inr a" and "run_tool (http_get env) (API_KEY env) a = Inl e"
  shows "run_one env call = Inl e"
  using assms by (simp add: run_one_def)

lemma run_one_bind_error:
  assumes "bind_args env call = Inl e"
  shows "run_one env call
           = Inr (ToolMessage (error_text env e) (tc_name call) (tc_id call) StatusError)"
  using assms by (simp add: run_one_def)

lemma tool_node_raises:
  assumes "i < length tcs" and "\<forall>j<i. \<exists>m. run_one env (tcs ! j) = Inr m"
    and "bind_args env (tcs ! i) = Inr a"
    and "run_tool (http_get env) (API_KEY env) a = Inl e"
  shows "tool_node env (h @ [AIMessage c tcs]) = Inl e"
  using emap_Inl[of i tcs "run_one env" e] assms run_one_raises[of env "tcs ! i" a e]
  by (simp add: tool_node_def)

lemma tool_node_each:
  assumes "tool_node env (h @ [AIMessage c tcs]) = Inr res" and "j < length tcs"
  shows "run_one env (tcs ! j) = Inr (res ! j)"
proof -
  from assms(1) have "emap (run_one env) tcs = Inr res" by (simp add: tool_node_def)
  from emap_Inr[OF this] assms(2) show ?thesis by simp
qed

lemma run_tool_ignores_status:
  assumes "h (tool_request k a) = Reply st b" and "h' (tool_request k a) = Reply st' b"
  shows "run_tool h k a = run_tool h' k a"
  using assms
  by (cases a)
     (simp_all add: get_watch_providers_def search_movies_def get_movie_details_def
        discover_movies_def get_movie_lists_def get_movie_recommendations_def
        get_trending_movies_def requests_get_json_def)

lemma demo_limit: "recursion_limit (demo_env source) = 25"
  by (simp add: demo_env_def)











section \<open>The claims\<close>







text \<open>
  C3. Whenever a turn reaches \<^verbatim>\<open>END\<close>, that is whenever \<^verbatim>\<open>graph.invoke\<close> returns a
  history, the history is not empty and its last message is an assistant message with
  no pending tool call.
\<close>

theorem done_history_ends_with_final_assistant:
  assumes "graph_invoke llm env s msgs = (Inr h, s')"
  shows "h \<noteq> [] \<and> (\<exists>c. last h = AIMessage c [])"
  using graph_run_final[of "recursion_limit env" Llm llm env s msgs h s'] assms
  by (simp add: graph_invoke_def add_messages_def)

theorem done_history_ends_with_final_assistant_witness:
  "graph_invoke answering_model unreachable_env () [HumanMessage ''Who made Inception?'']
     = (Inr [HumanMessage ''Who made Inception?'',
             AIMessage ''Inception is a film by Christopher Nolan.'' []], ())
   \<and> [HumanMessage ''Who made Inception?'',
       AIMessage ''Inception is a film by Christopher Nolan.'' []] \<noteq> []
   \<and> (\<exists>c. last [HumanMessage ''Who made Inception?'',
                 AIMessage ''Inception is a film by Christopher Nolan.'' []] = AIMessage c [])"
proof -
  have run: "graph_invoke answering_model unreachable_env () [HumanMessage ''Who made Inception?'']
     = (Inr [HumanMessage ''Who made Inception?'',
             AIMessage ''Inception is a film by Christopher Nolan.'' []], ())"
    by (simp add: graph_invoke_def add_messages_def unreachable_env_def demo_limit
        graph_run_pos_Llm_end[where c = "''Inception is a film by Christopher Nolan.''"]
        answering_model_def)
  show ?thesis
    using run done_history_ends_with_final_assistant[OF run] by simp
qed

text \<open>
  C5. Every sequence the run gives to the chat model starts with the system prompt,
  followed by the history the turn began with and by messages none of which is a system
  message; and the history the run returns is the history it was given followed by
  messages none of which is a system message. The calls are read from the log of a
  recording chat model; there is at least one as soon as the run is allowed a step.
\<close>

theorem system_prompt_heads_every_call_and_is_never_stored:
  assumes "graph_invoke (recording llm) env (s, seen) msgs = (r, (s', seen'))"
  shows "(\<exists>new. seen' = seen @ new \<and> (0 < recursion_limit env \<longrightarrow> new \<noteq> [])
               \<and> list_all (prompted msgs) new)
         \<and> (\<forall>h. r = Inr h \<longrightarrow> (\<exists>added. h = msgs @ added \<and> no_system added))"
proof -
  have run: "graph_run (recursion_limit env) Llm (recording llm) env (s, seen) (msgs @ [])
               = (r, (s', seen'))"
    using assms by (simp add: graph_invoke_def add_messages_def)
  have "no_system []" by (simp add: no_system_def)
  from graph_run_recording[OF run this] show ?thesis by auto
qed

theorem system_prompt_heads_every_call_and_is_never_stored_witness:
  "graph_invoke (recording answering_model) unreachable_env ((), [])
      [HumanMessage ''Who made Inception?'']
     = (Inr [HumanMessage ''Who made Inception?'',
             AIMessage ''Inception is a film by Christopher Nolan.'' []],
        ((), [[system_prompt, HumanMessage ''Who made Inception?'']]))
   \<and> 0 < recursion_limit unreachable_env
   \<and> (\<exists>new. [[system_prompt, HumanMessage ''Who made Inception?'']] = [] @ new \<and> new \<noteq> []
          \<and> list_all (prompted [HumanMessage ''Who made Inception?'']) new)
   \<and> (\<exists>added. [HumanMessage ''Who made Inception?'',
                 AIMessage ''Inception is a film by Christopher Nolan.'' []]
                = [HumanMessage ''Who made Inception?''] @ added \<and> no_system added)"
proof -
  have run: "graph_invoke (recording answering_model) unreachable_env ((), [])
      [HumanMessage ''Who made Inception?'']
     = (Inr [HumanMessage ''Who made Inception?'',
             AIMessage ''Inception is a film by Christopher Nolan.'' []],
        ((), [[system_prompt, HumanMessage ''Who made Inception?'']]))"
    by (simp add: graph_invoke_def add_messages_def unreachable_env_def demo_limit
        graph_run_pos_Llm_end[where c = "''Inception is a film by Christopher Nolan.''"]
        answering_model_def recording_def)
  have lim: "0 < recursion_limit unreachable_env"
    by (simp add: unreachable_env_def demo_limit)
  show ?thesis
    using run lim system_prompt_heads_every_call_and_is_never_stored[OF run] by simp
qed



text \<open>
  C6, as the code has it. Let the chat model answer with pending tool calls and let the
  run have the two steps it needs for this round. A tool call that raises in its
  execution (the movie database cannot be reached, its body is not JSON, the payload has
  a shape the tool cannot read) is not recorded: the exception leaves the tool node and
  the run ends with it, without another call of the chat model. When no call raises, the
  run goes on with the messages of the tool node, and a call whose arguments do not fit
  the tool is answered there with a tool message of status \<^verbatim>\<open>error\<close> that carries the
  identifier of the call. A connection that fails raises ConnectionError and a body that
  is not JSON raises JSONDecodeError; the status code is never read, so that a reply
  with the same body under another status gives the same outcome.
\<close>

theorem raising_tool_call_ends_the_run:
  assumes "llm s (system_prompt # msgs) = (Inr (c, tcs), s')" and "tcs \<noteq> []"
    and "2 \<le> recursion_limit env"
  shows "(i < length tcs \<and> (\<forall>j<i. \<exists>m. run_one env (tcs ! j) = Inr m)
            \<and> bind_args env (tcs ! i) = Inr a
            \<and> run_tool (http_get env) (API_KEY env) a = Inl e
          \<longrightarrow> tool_node env (msgs @ [AIMessage c tcs]) = Inl e
              \<and> graph_invoke llm env s msgs = (Inl e, s'))
         \<and> (\<forall>res. tool_node env (msgs @ [AIMessage c tcs]) = Inr res \<longrightarrow>
                graph_invoke llm env s msgs
                  = graph_run (recursion_limit env - 2) Llm llm env s'
                      (msgs @ [AIMessage c tcs] @ res)
              \<and> (\<forall>j<length tcs. \<forall>e'. bind_args env (tcs ! j) = Inl e' \<longrightarrow>
                    res ! j = ToolMessage (error_text env e') (tc_name (tcs ! j))
                                (tc_id (tcs ! j)) StatusError))
         \<and> (http_get env (tool_request (API_KEY env) a') = Unreachable
              \<longrightarrow> run_tool (http_get env) (API_KEY env) a' = Inl ConnectionError)
         \<and> (http_get env (tool_request (API_KEY env) a') = Reply st None
              \<longrightarrow> run_tool (http_get env) (API_KEY env) a' = Inl JSONDecodeError)
         \<and> (h (tool_request k a') = Reply st b \<and> h' (tool_request k a') = Reply st' b
              \<longrightarrow> run_tool h k a' = run_tool h' k a')"
proof -
  let ?L = "recursion_limit env"
  have pos: "0 < ?L" "0 < ?L - 1" "?L - 1 - 1 = ?L - 2" using assms(3) by simp_all
  have first: "graph_invoke llm env s msgs
                 = graph_run (?L - 1) Tools llm env s' (msgs @ [AIMessage c tcs])"
    using graph_run_pos_Llm_continue[of ?L llm s msgs c tcs s' env] pos(1) assms(1,2)
    by (simp add: graph_invoke_def add_messages_def)
  have raise: "tool_node env (msgs @ [AIMessage c tcs]) = Inl e
              \<and> graph_invoke llm env s msgs = (Inl e, s')"
    if "i < length tcs \<and> (\<forall>j<i. \<exists>m. run_one env (tcs ! j) = Inr m)
            \<and> bind_args env (tcs ! i) = Inr a
            \<and> run_tool (http_get env) (API_KEY env) a = Inl e"
  proof -
    from that have node: "tool_node env (msgs @ [AIMessage c tcs]) = Inl e"
      using tool_node_raises[of i tcs env a e msgs c] by blast
    from graph_run_pos_Tools_fail[OF pos(2) node] first node show ?thesis by simp
  qed
  have go_on: "graph_invoke llm env s msgs
                  = graph_run (?L - 2) Llm llm env s' (msgs @ [AIMessage c tcs] @ res)
              \<and> (\<forall>j<length tcs. \<forall>e'. bind_args env (tcs ! j) = Inl e' \<longrightarrow>
                    res ! j = ToolMessage (error_text env e') (tc_name (tcs ! j))
                                (tc_id (tcs ! j)) StatusError)"
    if node: "tool_node env (msgs @ [AIMessage c tcs]) = Inr res" for res
  proof -
    from graph_run_pos_Tools_continue[OF pos(2) node] first pos(3)
    have run: "graph_invoke llm env s msgs
                 = graph_run (?L - 2) Llm llm env s' (msgs @ [AIMessage c tcs] @ res)"
      by simp
    have "res ! j = ToolMessage (error_text env e') (tc_name (tcs ! j)) (tc_id (tcs ! j)) StatusError"
      if "j < length tcs" and "bind_args env (tcs ! j) = Inl e'" for j e'
      using tool_node_each[OF node that(1)] run_one_bind_error[OF that(2)] by simp
    with run show ?thesis by blast
  qed
  note unreachable = run_tool_unreachable[of "http_get env" "API_KEY env" a']
  note not_json = run_tool_not_json[of "http_get env" "API_KEY env" a' st]
  note status = run_tool_ignores_status[of h k a' st b h' st']
  from raise go_on unreachable not_json status show ?thesis by blast
qed

theorem raising_tool_call_ends_the_run_witness:
  "requesting_model () (system_prompt # [HumanMessage ''Find Inception''])
     = (Inr ([], [search_call]), ())
   \<and> [search_call] \<noteq> []
   \<and> 2 \<le> recursion_limit unreachable_env
   \<and> (0::nat) < length [search_call]
   \<and> bind_args unreachable_env ([search_call] ! 0) = Inr (SearchMovies ''Inception'' 1)
   \<and> http_get unreachable_env
         (tool_request (API_KEY unreachable_env) (SearchMovies ''Inception'' 1)) = Unreachable
   \<and> run_tool (http_get unreachable_env) (API_KEY unreachable_env)
         (SearchMovies ''Inception'' 1) = Inl ConnectionError
   \<and> tool_node unreachable_env ([HumanMessage ''Find Inception''] @ [AIMessage [] [search_call]])
       = Inl ConnectionError
   \<and> graph_invoke requesting_model unreachable_env () [HumanMessage ''Find Inception'']
       = (Inl ConnectionError, ())
   \<and> bad_request_model () (system_prompt # [HumanMessage ''Find Inception''])
       = (Inr ([], [bad_call]), ())
   \<and> bind_args unreachable_env ([bad_call] ! 0) = Inl ValidationError
   \<and> tool_node unreachable_env ([HumanMessage ''Find Inception''] @ [AIMessage [] [bad_call]])
       = Inr [ToolMessage ''ValidationError'' ''search_movies'' ''call_3'' StatusError]
   \<and> [ToolMessage ''ValidationError'' ''search_movies'' ''call_3'' StatusError] ! 0
       = ToolMessage (error_text unreachable_env ValidationError) (tc_name ([bad_call] ! 0))
           (tc_id ([bad_call] ! 0)) StatusError
   \<and> graph_invoke bad_request_model unreachable_env () [HumanMessage ''Find Inception'']
       = graph_run (recursion_limit unreachable_env - 2) Llm bad_request_model unreachable_env ()
           ([HumanMessage ''Find Inception''] @ [AIMessage [] [bad_call]]
            @ [ToolMessage ''ValidationError'' ''search_movies'' ''call_3'' StatusError])
   \<and> http_get bad_gateway_env
         (tool_request (API_KEY bad_gateway_env) (SearchMovies ''Inception'' 1)) = Reply 502 None
   \<and> run_tool (http_get bad_gateway_env) (API_KEY bad_gateway_env)
         (SearchMovies ''Inception'' 1) = Inl JSONDecodeError
   \<and> not_found_source (tool_request (Some ''key'') (GetMovieDetails 27205 True))
       = Reply 404 (Some not_found_body)
   \<and> found_source (tool_request (Some ''key'') (GetMovieDetails 27205 True))
       = Reply 200 (Some not_found_body)
   \<and> run_tool not_found_source (Some ''key'') (GetMovieDetails 27205 True)
       = run_tool found_source (Some ''key'') (GetMovieDetails 27205 True)"
proof -
  have a: "requesting_model () (system_prompt # [HumanMessage ''Find Inception''])
     = (Inr ([], [search_call]), ())"
    by (simp add: requesting_model_def)
  have b: "[search_call] \<noteq> []" by simp
  have l: "2 \<le> recursion_limit unreachable_env"
    by (simp add: unreachable_env_def demo_limit)
  have i0: "(0::nat) < length [search_call]" by simp
  have bind: "bind_args unreachable_env ([search_call] ! 0) = Inr (SearchMovies ''Inception'' 1)"
    by (simp add: unreachable_env_def demo_env_def demo_bind_def search_call_def)
  have u: "http_get unreachable_env
         (tool_request (API_KEY unreachable_env) (SearchMovies ''Inception'' 1)) = Unreachable"
    by (simp add: unreachable_env_def demo_env_def)
  have g: "http_get bad_gateway_env
         (tool_request (API_KEY bad_gateway_env) (SearchMovies ''Inception'' 1)) = Reply 502 None"
    by (simp add: bad_gateway_env_def demo_env_def)
  have a2: "bad_request_model () (system_prompt # [HumanMessage ''Find Inception''])
       = (Inr ([], [bad_call]), ())"
    by (simp add: bad_request_model_def)
  have b2: "[bad_call] \<noteq> []" by simp
  have bind2: "bind_args unreachable_env ([bad_call] ! 0) = Inl ValidationError"
    by (simp add: unreachable_env_def demo_env_def demo_bind_def bad_call_def)
  have node2: "tool_node unreachable_env
                 ([HumanMessage ''Find Inception''] @ [AIMessage [] [bad_call]])
       = Inr [ToolMessage ''ValidationError'' ''search_movies'' ''call_3'' StatusError]"
    by (simp add: tool_node_def run_one_def unreachable_env_def demo_env_def demo_bind_def
        bad_call_def)
  have s1: "not_found_source (tool_request (Some ''key'') (GetMovieDetails 27205 True))
       = Reply 404 (Some not_found_body)"
    by (simp add: not_found_source_def)
  have s2: "found_source (tool_request (Some ''key'') (GetMovieDetails 27205 True))
       = Reply 200 (Some not_found_body)"
    by (simp add: found_source_def)
  note at_raise = raising_tool_call_ends_the_run[of requesting_model "()"
      "[HumanMessage ''Find Inception'']" "[]" "[search_call]" "()" unreachable_env
      0 "SearchMovies ''Inception'' 1" ConnectionError "SearchMovies ''Inception'' 1" 502
      not_found_source "Some ''key''" "Some not_found_body" found_source 200, OF a b l]
  note at_bind = raising_tool_call_ends_the_run[of bad_request_model "()"
      "[HumanMessage ''Find Inception'']" "[]" "[bad_call]" "()" unreachable_env
      0 "SearchMovies ''Inception'' 1" ConnectionError "SearchMovies ''Inception'' 1" 502
      not_found_source "Some ''key''" "Some not_found_body" found_source 200, OF a2 b2 l]
  note at_gateway = raising_tool_call_ends_the_run[of requesting_model "()"
      "[HumanMessage ''Find Inception'']" "[]" "[search_call]" "()" bad_gateway_env
      0 "SearchMovies ''Inception'' 1" JSONDecodeError "SearchMovies ''Inception'' 1" 502
      not_found_source "Some ''key''" "Some not_found_body" found_source 200, OF a b]
  note at_status = raising_tool_call_ends_the_run[of requesting_model "()"
      "[HumanMessage ''Find Inception'']" "[]" "[search_call]" "()" unreachable_env
      0 "SearchMovies ''Inception'' 1" ConnectionError "GetMovieDetails 27205 True" 404
      not_found_source "Some ''key''" "Some not_found_body" found_source 200, OF a b l]
  have r: "run_tool (http_get unreachable_env) (API_KEY unreachable_env)
         (SearchMovies ''Inception'' 1) = Inl ConnectionError"
    using at_raise u by (elim conjE) simp
  have out: "tool_node unreachable_env
               ([HumanMessage ''Find Inception''] @ [AIMessage [] [search_call]])
                = Inl ConnectionError
             \<and> graph_invoke requesting_model unreachable_env () [HumanMessage ''Find Inception'']
                = (Inl ConnectionError, ())"
    using at_raise i0 bind r by (elim conjE) simp
  have cont: "graph_invoke bad_request_model unreachable_env () [HumanMessage ''Find Inception'']
       = graph_run (recursion_limit unreachable_env - 2) Llm bad_request_model unreachable_env ()
           ([HumanMessage ''Find Inception''] @ [AIMessage [] [bad_call]]
            @ [ToolMessage ''ValidationError'' ''search_movies'' ''call_3'' StatusError])
      \<and> [ToolMessage ''ValidationError'' ''search_movies'' ''call_3'' StatusError] ! 0
       = ToolMessage (error_text unreachable_env ValidationError) (tc_name ([bad_call] ! 0))
           (tc_id ([bad_call] ! 0)) StatusError"
    using at_bind node2 bind2 by (elim conjE) simp
  have l2: "2 \<le> recursion_limit bad_gateway_env"
    by (simp add: bad_gateway_env_def demo_limit)
  have j: "run_tool (http_get bad_gateway_env) (API_KEY bad_gateway_env)
         (SearchMovies ''Inception'' 1) = Inl JSONDecodeError"
    using at_gateway[OF l2] g by (elim conjE) simp
  have st: "run_tool not_found_source (Some ''key'') (GetMovieDetails 27205 True)
       = run_tool found_source (Some ''key'') (GetMovieDetails 27205 True)"
    using at_status s1 s2 by (elim conjE) simp
  from a b l i0 bind u r out a2 bind2 node2 cont g j s1 s2 st show ?thesis
    by (intro conjI) (elim conjE, assumption)+
qed

text \<open>
  The claim C6 as it is written fails twice. When the movie database cannot be reached,
  the exception of \<^verbatim>\<open>search_movies\<close> leaves the tool node and the run: nothing is
  recorded and the model is not called again. And when the movie database answers 404
  with its JSON error body, \<^verbatim>\<open>get_movie_details\<close> returns a dictionary of
  \<^verbatim>\<open>None\<close> fields, which the tool node records as a tool message of status
  \<^verbatim>\<open>success\<close>: no error payload is recorded.
\<close>

theorem tool_failure_leaves_the_loop_or_is_recorded_as_success:
  "graph_invoke requesting_model unreachable_env () [HumanMessage ''Find Inception'']
     = (Inl ConnectionError, ())
   \<and> http_get not_found_env (tool_request (API_KEY not_found_env) (GetMovieDetails 27205 True))
     = Reply 404 (Some not_found_body)
   \<and> run_tool (http_get not_found_env) (API_KEY not_found_env) (GetMovieDetails 27205 True)
     = Inr (JObj [(''id'', JNull), (''title'', JNull), (''overview'', JNull),
                  (''release_date'', JNull), (''runtime'', JNull), (''vote_average'', JNull),
                  (''vote_count'', JNull), (''budget'', JNull), (''revenue'', JNull),
                  (''genres'', JList [])])
   \<and> tool_node not_found_env
        [HumanMessage ''Tell me about the movie 27205'', AIMessage [] [details_call]]
     = Inr [ToolMessage ''{...}'' ''get_movie_details'' ''call_2'' StatusSuccess]"
proof -
  have c: "requesting_model () (system_prompt # [HumanMessage ''Find Inception''])
     = (Inr ([], [search_call]), ())"
    by (simp add: requesting_model_def)
  have node: "tool_node unreachable_env
                ([HumanMessage ''Find Inception''] @ [AIMessage [] [search_call]])
                = Inl ConnectionError"
    by (simp add: tool_node_def run_one_def unreachable_env_def demo_env_def demo_bind_def
        search_call_def search_movies_def requests_get_json_def ebind_def)
  have "graph_invoke requesting_model unreachable_env () [HumanMessage ''Find Inception'']
          = graph_run 24 Tools requesting_model unreachable_env ()
              ([HumanMessage ''Find Inception''] @ [AIMessage [] [search_call]])"
    using graph_run_pos_Llm_continue[of 25 requesting_model "()"
            "[HumanMessage ''Find Inception'']" "[]" "[search_call]" "()" unreachable_env] c
    by (simp add: graph_invoke_def add_messages_def unreachable_env_def demo_limit)
  also have "\<dots> = (Inl ConnectionError, ())"
    using graph_run_pos_Tools_fail[of 24 unreachable_env
            "[HumanMessage ''Find Inception''] @ [AIMessage [] [search_call]]" ConnectionError
            requesting_model "()"] node
    by simp
  finally have run: "graph_invoke requesting_model unreachable_env ()
                       [HumanMessage ''Find Inception''] = (Inl ConnectionError, ())" .
  have src: "http_get not_found_env
               (tool_request (API_KEY not_found_env) (GetMovieDetails 27205 True))
     = Reply 404 (Some not_found_body)"
    by (simp add: not_found_env_def demo_env_def)
  have tool: "run_tool (http_get not_found_env) (API_KEY not_found_env)
                (GetMovieDetails 27205 True)
     = Inr (JObj [(''id'', JNull), (''title'', JNull), (''overview'', JNull),
                  (''release_date'', JNull), (''runtime'', JNull), (''vote_average'', JNull),
                  (''vote_count'', JNull), (''budget'', JNull), (''revenue'', JNull),
                  (''genres'', JList [])])"
    by (simp add: not_found_env_def demo_env_def ebind_def
        get_movie_details_def requests_get_json_def movie_details_response_def
        not_found_body_def dict_get_def genre_names_def)
  have rec: "tool_node not_found_env
        [HumanMessage ''Tell me about the movie 27205'', AIMessage [] [details_call]]
     = Inr [ToolMessage ''{...}'' ''get_movie_details'' ''call_2'' StatusSuccess]"
    using tool
    by (simp add: tool_node_def run_one_def)
       (simp add: not_found_env_def demo_env_def demo_bind_def details_call_def)
  from run src tool rec show ?thesis by (intro conjI)
qed

text \<open>
  C7. The result of a tool is a function of its arguments and of the reply of the movie
  database to the one request the arguments determine: two invocations with the same
  arguments, against data sources that give the same reply to that request, return the
  same value or raise the same error.
\<close>

theorem tool_result_is_function_of_arguments_and_reply:
  assumes "h (tool_request k a) = h' (tool_request k a)"
  shows "run_tool h k a = run_tool h' k a"
  using assms by (rule run_tool_same_reply)

theorem tool_result_is_function_of_arguments_and_reply_witness:
  "search_source (tool_request (Some ''key'') (SearchMovies ''Inception'' 1))
     = search_only_source (tool_request (Some ''key'') (SearchMovies ''Inception'' 1))
   \<and> run_tool search_source (Some ''key'') (SearchMovies ''Inception'' 1)
     = run_tool search_only_source (Some ''key'') (SearchMovies ''Inception'' 1)
   \<and> run_tool search_source (Some ''key'') (SearchMovies ''Inception'' 1)
     = Inr filtered_search_body"
proof -
  have same: "search_source (tool_request (Some ''key'') (SearchMovies ''Inception'' 1))
     = search_only_source (tool_request (Some ''key'') (SearchMovies ''Inception'' 1))"
    by (simp add: search_source_def search_only_source_def)
  have run: "run_tool search_source (Some ''key'') (SearchMovies ''Inception'' 1)
     = Inr filtered_search_body"
    using search_body_run
      run_tool_same_reply[of search_source "Some ''key''" "SearchMovies ''Inception'' 1"
        "\<lambda>req. Reply 200 (Some (JObj search_body_kv))"]
    by (simp add: search_source_def)
  show ?thesis
    using same run
      tool_result_is_function_of_arguments_and_reply[of search_source "Some ''key''"
        "SearchMovies ''Inception'' 1" search_only_source]
    by blast
qed

text \<open>
  C9, as the code has it. Let one of the five list tools receive a JSON object whose
  \<^verbatim>\<open>results\<close> is a list of dictionaries with a string for overview or none, and
  whose \<^verbatim>\<open>total_results\<close> is an integer or absent. Then the tool returns
  \<^verbatim>\<open>results\<close> and \<^verbatim>\<open>total_results\<close> only: at most five movies, the first five of
  the response in their order, \<^verbatim>\<open>total_results\<close> the minimum of the total of the
  response (0 when absent) and 5, and each overview (empty when absent) cut to the limit
  of the tool with \<^verbatim>\<open>...\<close> appended when it is longer than the limit, unchanged
  otherwise.
\<close>

theorem list_tools_limit_results_and_overviews:
  assumes "is_list_tool a"
    and "h (tool_request k a) = Reply st (Some (JObj kv))"
    and "map_of kv ''results'' = Some results"
    and "well_formed_results results"
    and "well_formed_total kv"
  shows "\<exists>movies out n.
             results = JList movies
           \<and> dict_get kv ''total_results'' (JInt 0) = JInt n
           \<and> run_tool h k a
               = Inr (JObj [(''results'', JList out), (''total_results'', JInt (min n 5))])
           \<and> length out \<le> 5
           \<and> length out = min 5 (length movies)
           \<and> (\<forall>i<length out. \<exists>mkv s.
                  movies ! i = JObj mkv
                \<and> dict_get mkv ''overview'' (JStr []) = JStr s
                \<and> out ! i = JObj [(''id'', dict_get mkv ''id'' JNull),
                                  (''title'', dict_get mkv ''title'' JNull),
                                  (''release_date'', dict_get mkv ''release_date'' JNull),
                                  (''vote_average'', dict_get mkv ''vote_average'' JNull),
                                  (''overview'',
                                     JStr (if overview_limit a < length s
                                           then take (overview_limit a) s @ ''...'' else s))])"
proof -
  have run: "run_tool h k a = filter_response (overview_limit a) (JObj kv)"
    using run_list_tool[OF assms(1)] assms(2)
    by (simp add: requests_get_json_def ebind_def)
  from filter_response_returns[OF assms(3,4,5)] obtain v where
    v: "filter_response (overview_limit a) (JObj kv) = Inr v" by blast
  from filter_response_Inr[OF assms(3) v] obtain movies out total where
    m: "py_iter results = Inr movies"
    and vv: "v = JObj [(''results'', JList out), (''total_results'', total)]"
    and len: "length out = min 5 (length movies)"
    and tot: "py_min (dict_get kv ''total_results'' (JInt 0)) 5 = Inr total"
    and each: "\<forall>i<length out. filtered_movie (overview_limit a) (movies ! i) = Inr (out ! i)"
    by blast
  from assms(4) m have res: "results = JList movies" and wf: "list_all well_formed_movie movies"
    by (cases results; simp add: well_formed_results_def)+
  from assms(5) obtain n where n: "dict_get kv ''total_results'' (JInt 0) = JInt n"
    by (auto simp: well_formed_total_def dict_get_def split: option.splits json.splits)
  with tot have total: "total = JInt (min n 5)" by (auto simp: min_def)
  have movie: "\<exists>mkv s.
                  movies ! i = JObj mkv
                \<and> dict_get mkv ''overview'' (JStr []) = JStr s
                \<and> out ! i = JObj [(''id'', dict_get mkv ''id'' JNull),
                                  (''title'', dict_get mkv ''title'' JNull),
                                  (''release_date'', dict_get mkv ''release_date'' JNull),
                                  (''vote_average'', dict_get mkv ''vote_average'' JNull),
                                  (''overview'',
                                     JStr (if overview_limit a < length s
                                           then take (overview_limit a) s @ ''...'' else s))]"
    if i: "i < length out" for i
  proof -
    from i len have il: "i < length movies" by simp
    with wf have wfi: "well_formed_movie (movies ! i)" by (simp add: list_all_length)
    from each i have f: "filtered_movie (overview_limit a) (movies ! i) = Inr (out ! i)" by simp
    from filtered_movie_Inr[OF f] obtain mkv ov where
      mk: "movies ! i = JObj mkv"
      and o: "out ! i = JObj [(''id'', dict_get mkv ''id'' JNull),
                             (''title'', dict_get mkv ''title'' JNull),
                             (''release_date'', dict_get mkv ''release_date'' JNull),
                             (''vote_average'', dict_get mkv ''vote_average'' JNull),
                             (''overview'', ov)]"
      and ovs: "\<forall>s. dict_get mkv ''overview'' (JStr []) = JStr s \<longrightarrow>
                  ov = JStr (if overview_limit a < length s
                             then take (overview_limit a) s @ ''...'' else s)"
      by blast
    from wfi mk obtain s where s: "dict_get mkv ''overview'' (JStr []) = JStr s"
      by (auto simp: well_formed_movie_def dict_get_def split: option.splits json.splits)
    with ovs have "ov = JStr (if overview_limit a < length s
                             then take (overview_limit a) s @ ''...'' else s)" by simp
    with mk o s show ?thesis by blast
  qed
  have "length out \<le> 5" using len by simp
  with res n run v vv total len movie show ?thesis by (intro exI[of _ movies] exI[of _ out] exI[of _ n]) simp
qed

theorem list_tools_limit_results_and_overviews_witness:
  "is_list_tool (SearchMovies ''Inception'' 1)
   \<and> search_source (tool_request (Some ''key'') (SearchMovies ''Inception'' 1))
       = Reply 200 (Some (JObj search_body_kv))
   \<and> map_of search_body_kv ''results'' = Some search_results
   \<and> well_formed_results search_results
   \<and> well_formed_total search_body_kv
   \<and> run_tool search_source (Some ''key'') (SearchMovies ''Inception'' 1)
       = Inr filtered_search_body
   \<and> (\<exists>movies out n.
          search_results = JList movies
        \<and> dict_get search_body_kv ''total_results'' (JInt 0) = JInt n
        \<and> run_tool search_source (Some ''key'') (SearchMovies ''Inception'' 1)
            = Inr (JObj [(''results'', JList out), (''total_results'', JInt (min n 5))])
        \<and> length out \<le> 5
        \<and> length out = min 5 (length movies))"
proof -
  have a: "is_list_tool (SearchMovies ''Inception'' 1)" by simp
  have b: "search_source (tool_request (Some ''key'') (SearchMovies ''Inception'' 1))
       = Reply 200 (Some (JObj search_body_kv))"
    by (simp add: search_source_def)
  have c: "map_of search_body_kv ''results'' = Some search_results"
    by (simp add: search_body_kv_def)
  have d: "well_formed_results search_results"
    by (simp add: well_formed_results_def search_results_def well_formed_movie_def
        sample_movie_def)
  have e: "well_formed_total search_body_kv"
    by (simp add: well_formed_total_def search_body_kv_def)
  have run: "run_tool search_source (Some ''key'') (SearchMovies ''Inception'' 1)
       = Inr filtered_search_body"
    using search_body_run
      run_tool_same_reply[of search_source "Some ''key''" "SearchMovies ''Inception'' 1"
        "\<lambda>req. Reply 200 (Some (JObj search_body_kv))"]
    by (simp add: search_source_def)
  note inst = list_tools_limit_results_and_overviews[of "SearchMovies ''Inception'' 1"
         search_source "Some ''key''" 200 search_body_kv search_results, OF a b c d e]
  from inst obtain movies out n where
    "search_results = JList movies"
    "dict_get search_body_kv ''total_results'' (JInt 0) = JInt n"
    "run_tool search_source (Some ''key'') (SearchMovies ''Inception'' 1)
       = Inr (JObj [(''results'', JList out), (''total_results'', JInt (min n 5))])"
    "length out \<le> 5" "length out = min 5 (length movies)"
    by (elim exE conjE)
  then have "\<exists>movies out n.
          search_results = JList movies
        \<and> dict_get search_body_kv ''total_results'' (JInt 0) = JInt n
        \<and> run_tool search_source (Some ''key'') (SearchMovies ''Inception'' 1)
            = Inr (JObj [(''results'', JList out), (''total_results'', JInt (min n 5))])
        \<and> length out \<le> 5
        \<and> length out = min 5 (length movies)"
    by blast
  with a b c d e run show ?thesis by (intro conjI)
qed

text \<open>
  The claim C9 as it is written fails: a response can hold a \<^verbatim>\<open>results\<close> key and make
  the tool raise. With a search result whose overview is \<^verbatim>\<open>null\<close>,
  \<^verbatim>\<open>len(movie.get('overview', ''))\<close> is the length of \<^verbatim>\<open>None\<close>, and
  \<^verbatim>\<open>search_movies\<close> raises TypeError instead of returning movies.
\<close>

theorem null_overview_makes_search_raise:
  "null_overview_source (tool_request (Some ''key'') (SearchMovies ''Inception'' 1))
     = Reply 200 (Some (JObj null_overview_kv))
   \<and> map_of null_overview_kv ''results''
     = Some (JList [JObj [(''id'', JInt 1), (''title'', JStr ''Inception''),
                          (''overview'', JNull)]])
   \<and> run_tool null_overview_source (Some ''key'') (SearchMovies ''Inception'' 1)
     = Inl TypeError"
  by (simp add: null_overview_source_def null_overview_kv_def search_movies_def
      requests_get_json_def ebind_def filter_response_def filtered_movie_def
      overview_field_def dict_get_def)

text \<open>
  C10. Whenever \<^verbatim>\<open>get_watch_providers\<close> returns, it returns a dictionary with the keys
  \<^verbatim>\<open>movie_id\<close>, \<^verbatim>\<open>region\<close>, \<^verbatim>\<open>streaming\<close>, \<^verbatim>\<open>rent\<close>, \<^verbatim>\<open>buy\<close> and
  \<^verbatim>\<open>link\<close>, the first two holding its arguments. When the response is a JSON object
  that has no \<^verbatim>\<open>results\<close>, or whose \<^verbatim>\<open>results\<close> do not list the region, it returns the
  three empty lists, an empty link and the message naming the region; when the region is
  listed with provider data of the documented shape, it returns as well. The request does
  not depend on the region: its parameters are \<^verbatim>\<open>api_key\<close> and \<^verbatim>\<open>language\<close>, and the
  result depends on the data source through the reply to that request only.
\<close>

theorem watch_providers_keys_absent_region_and_request:
  "(\<forall>v. get_watch_providers h k movie_id region = Inr v \<longrightarrow>
       (\<exists>kv. v = JObj kv
            \<and> {''movie_id'', ''region'', ''streaming'', ''rent'', ''buy'', ''link''}
                 \<subseteq> set (map fst kv)
            \<and> map_of kv ''movie_id'' = Some (JInt movie_id)
            \<and> map_of kv ''region'' = Some (JStr region)))
   \<and> (h (get_watch_providers_request k movie_id region) = Reply st (Some (JObj rkv))
        \<and> (map_of rkv ''results'' = None
             \<or> (\<exists>lkv. map_of rkv ''results'' = Some (JObj lkv) \<and> region \<notin> set (map fst lkv)))
       \<longrightarrow> get_watch_providers h k movie_id region
            = Inr (JObj [(''movie_id'', JInt movie_id), (''region'', JStr region),
                         (''streaming'', JList []), (''rent'', JList []), (''buy'', JList []),
                         (''message'',
                            JStr (''No streaming information available for this movie in ''
                                  @ region)),
                         (''link'', JStr [])]))
   \<and> (h (get_watch_providers_request k movie_id region) = Reply st (Some (JObj rkv))
        \<and> map_of rkv ''results'' = Some (JObj pkv) \<and> map_of pkv region = Some pd
        \<and> well_formed_provider_data pd
       \<longrightarrow> (\<exists>v. get_watch_providers h k movie_id region = Inr v))
   \<and> get_watch_providers_request k movie_id region
       = get_watch_providers_request k movie_id region'
   \<and> map fst (snd (get_watch_providers_request k movie_id region)) = [''api_key'', ''language'']
   \<and> (h (get_watch_providers_request k movie_id region)
         = h' (get_watch_providers_request k movie_id region)
       \<longrightarrow> get_watch_providers h k movie_id region = get_watch_providers h' k movie_id region)"
proof -
  have keys: "\<forall>v. get_watch_providers h k movie_id region = Inr v \<longrightarrow>
       (\<exists>kv. v = JObj kv
            \<and> {''movie_id'', ''region'', ''streaming'', ''rent'', ''buy'', ''link''}
                 \<subseteq> set (map fst kv)
            \<and> map_of kv ''movie_id'' = Some (JInt movie_id)
            \<and> map_of kv ''region'' = Some (JStr region))"
    using watch_providers_response_keys
    by (auto simp: get_watch_providers_def ebind_Inr)
  have absent: "h (get_watch_providers_request k movie_id region) = Reply st (Some (JObj rkv))
        \<and> (map_of rkv ''results'' = None
             \<or> (\<exists>lkv. map_of rkv ''results'' = Some (JObj lkv) \<and> region \<notin> set (map fst lkv)))
       \<longrightarrow> get_watch_providers h k movie_id region
            = Inr (JObj [(''movie_id'', JInt movie_id), (''region'', JStr region),
                         (''streaming'', JList []), (''rent'', JList []), (''buy'', JList []),
                         (''message'',
                            JStr (''No streaming information available for this movie in ''
                                  @ region)),
                         (''link'', JStr [])])"
    using region_not_listed[of rkv region]
    by (auto simp: get_watch_providers_def requests_get_json_def ebind_def
        watch_providers_response_def)
  have listed: "h (get_watch_providers_request k movie_id region) = Reply st (Some (JObj rkv))
        \<and> map_of rkv ''results'' = Some (JObj pkv) \<and> map_of pkv region = Some pd
        \<and> well_formed_provider_data pd
       \<longrightarrow> (\<exists>v. get_watch_providers h k movie_id region = Inr v)"
    using watch_providers_response_returns[of rkv pkv region pd movie_id]
    by (auto simp: get_watch_providers_def requests_get_json_def ebind_def)
  have req: "get_watch_providers_request k movie_id region
       = get_watch_providers_request k movie_id region'"
    by (simp add: get_watch_providers_request_def)
  have params: "map fst (snd (get_watch_providers_request k movie_id region))
                  = [''api_key'', ''language'']"
    by (simp add: get_watch_providers_request_def)
  have same: "h (get_watch_providers_request k movie_id region)
         = h' (get_watch_providers_request k movie_id region)
       \<longrightarrow> get_watch_providers h k movie_id region = get_watch_providers h' k movie_id region"
    by (simp add: get_watch_providers_def requests_get_json_def)
  from keys absent listed req params same show ?thesis by blast
qed

theorem watch_providers_keys_absent_region_and_request_witness:
  "get_watch_providers providers_source (Some ''key'') 27205 ''US''
     = Inr (JObj [(''movie_id'', JInt 27205), (''region'', JStr ''US''),
                  (''streaming'', JList [JStr ''Netflix'']), (''rent'', JList [JStr ''Apple TV'']),
                  (''buy'', JList []),
                  (''link'', JStr ''https://www.themoviedb.org/movie/27205/watch?locale=US'')])
   \<and> providers_source (get_watch_providers_request (Some ''key'') 27205 ''US'')
       = Reply 200 (Some (JObj providers_kv))
   \<and> map_of providers_kv ''results'' = Some (JObj us_listing)
   \<and> map_of us_listing ''US'' = Some us_provider_data
   \<and> well_formed_provider_data us_provider_data
   \<and> providers_source (get_watch_providers_request (Some ''key'') 27205 ''FR'')
       = Reply 200 (Some (JObj providers_kv))
   \<and> ''FR'' \<notin> set (map fst us_listing)
   \<and> get_watch_providers providers_source (Some ''key'') 27205 ''FR''
     = Inr (JObj [(''movie_id'', JInt 27205), (''region'', JStr ''FR''),
                  (''streaming'', JList []), (''rent'', JList []), (''buy'', JList []),
                  (''message'',
                     JStr (''No streaming information available for this movie in '' @ ''FR'')),
                  (''link'', JStr [])])
   \<and> get_watch_providers_request (Some ''key'') 27205 ''US''
       = get_watch_providers_request (Some ''key'') 27205 ''FR''
   \<and> map fst (snd (get_watch_providers_request (Some ''key'') 27205 ''US''))
       = [''api_key'', ''language'']"
proof -
  note us = providers_us
  have src: "providers_source (get_watch_providers_request (Some ''key'') 27205 r)
       = Reply 200 (Some (JObj providers_kv))" for r
    by (simp add: providers_source_def)
  have res: "map_of providers_kv ''results'' = Some (JObj us_listing)"
    by (simp add: providers_kv_def)
  have lst: "map_of us_listing ''US'' = Some us_provider_data"
    by (simp add: us_listing_def)
  have wf: "well_formed_provider_data us_provider_data"
    by (simp add: well_formed_provider_data_def us_provider_data_def well_formed_offers_def
        well_formed_provider_def)
  have fr: "''FR'' \<notin> set (map fst us_listing)"
    by (simp add: us_listing_def)
  note at_fr = watch_providers_keys_absent_region_and_request[where h = providers_source
      and k = "Some ''key''" and movie_id = 27205 and region = "''FR''" and st = 200
      and rkv = providers_kv and region' = "''US''" and h' = providers_source
      and pkv = us_listing and pd = us_provider_data]
  note at_us = watch_providers_keys_absent_region_and_request[where h = providers_source
      and k = "Some ''key''" and movie_id = 27205 and region = "''US''" and st = 200
      and rkv = providers_kv and region' = "''FR''" and h' = providers_source
      and pkv = us_listing and pd = us_provider_data]
  have absent: "get_watch_providers providers_source (Some ''key'') 27205 ''FR''
     = Inr (JObj [(''movie_id'', JInt 27205), (''region'', JStr ''FR''),
                  (''streaming'', JList []), (''rent'', JList []), (''buy'', JList []),
                  (''message'',
                     JStr (''No streaming information available for this movie in '' @ ''FR'')),
                  (''link'', JStr [])])"
    using at_fr src[of "''FR''"] res fr by (elim conjE) blast
  have req: "get_watch_providers_request (Some ''key'') 27205 ''US''
       = get_watch_providers_request (Some ''key'') 27205 ''FR''"
    using at_us by (elim conjE)
  have params: "map fst (snd (get_watch_providers_request (Some ''key'') 27205 ''US''))
       = [''api_key'', ''language'']"
    using at_us by (elim conjE)
  from us src[of "''US''"] res lst wf src[of "''FR''"] fr absent req params
  show ?thesis by (intro conjI)
qed

end
